theory Spec2Isabelle
  imports Main "HOL-Library.Word"
begin

section \<open>BigNumber values\<close>

text \<open>
  The Lightning plugin keeps every amount, balance and bound as a \<^verbatim>\<open>BigNumber\<close>
  (bignumber.js).  The configuration defaults are \<^verbatim>\<open>Infinity\<close> and
  \<^verbatim>\<open>-Infinity\<close>, and the account's \<^verbatim>\<open>payoutAmount\<close> starts as
  \<^verbatim>\<open>Infinity\<close> when prefunding, so the model has the two infinities and
  \<^verbatim>\<open>NaN\<close> beside the finite values.  Finite values are integers: amounts
  are integer units and every configured bound goes through
  \<^verbatim>\<open>dp(0, ROUND_FLOOR)\<close>, which is the identity on integers, on the
  infinities and on \<^verbatim>\<open>NaN\<close>.
\<close>

datatype BigNumber = NaN | NegInf | BN int | PosInf

text \<open>\<^verbatim>\<open>a.plus(b)\<close>: \<^verbatim>\<open>NaN\<close> is absorbing and opposite infinities give \<^verbatim>\<open>NaN\<close>.\<close>

fun plus_bn :: "BigNumber \<Rightarrow> BigNumber \<Rightarrow> BigNumber" where
  "plus_bn NaN _ = NaN"
| "plus_bn _ NaN = NaN"
| "plus_bn PosInf NegInf = NaN"
| "plus_bn NegInf PosInf = NaN"
| "plus_bn PosInf _ = PosInf"
| "plus_bn _ PosInf = PosInf"
| "plus_bn NegInf _ = NegInf"
| "plus_bn _ NegInf = NegInf"
| "plus_bn (BN a) (BN b) = BN (a + b)"

fun negated :: "BigNumber \<Rightarrow> BigNumber" where
  "negated NaN = NaN"
| "negated NegInf = PosInf"
| "negated PosInf = NegInf"
| "negated (BN a) = BN (- a)"

definition minus_bn :: "BigNumber \<Rightarrow> BigNumber \<Rightarrow> BigNumber" where
  "minus_bn a b = plus_bn a (negated b)"

text \<open>\<^verbatim>\<open>a.lt(b)\<close>: every comparison with \<^verbatim>\<open>NaN\<close> is false.\<close>

fun lt :: "BigNumber \<Rightarrow> BigNumber \<Rightarrow> bool" where
  "lt NaN _ = False"
| "lt _ NaN = False"
| "lt _ NegInf = False"
| "lt NegInf _ = True"
| "lt PosInf _ = False"
| "lt (BN a) PosInf = True"
| "lt (BN a) (BN b) = (a < b)"

definition gt :: "BigNumber \<Rightarrow> BigNumber \<Rightarrow> bool" where
  "gt a b = lt b a"

definition eq_bn :: "BigNumber \<Rightarrow> BigNumber \<Rightarrow> bool" where
  "eq_bn a b = (a \<noteq> NaN \<and> a = b)"

definition lte :: "BigNumber \<Rightarrow> BigNumber \<Rightarrow> bool" where
  "lte a b = (lt a b \<or> eq_bn a b)"

definition gte :: "BigNumber \<Rightarrow> BigNumber \<Rightarrow> bool" where
  "gte a b = (gt a b \<or> eq_bn a b)"

definition isZero :: "BigNumber \<Rightarrow> bool" where
  "isZero a = (a = BN 0)"

text \<open>\<^verbatim>\<open>BigNumber.min(a, b)\<close>: \<^verbatim>\<open>NaN\<close> when either argument is.\<close>

definition minimum_of :: "BigNumber \<Rightarrow> BigNumber \<Rightarrow> BigNumber" where
  "minimum_of a b = (if a = NaN \<or> b = NaN then NaN else if lt b a then b else a)"

fun abs_bn :: "BigNumber \<Rightarrow> BigNumber" where
  "abs_bn NaN = NaN"
| "abs_bn NegInf = PosInf"
| "abs_bn PosInf = PosInf"
| "abs_bn (BN a) = BN \<bar>a\<bar>"

definition isInteger :: "BigNumber \<Rightarrow> bool" where
  "isInteger v = (case v of BN _ \<Rightarrow> True | _ \<Rightarrow> False)"

section \<open>Errors and results\<close>

text \<open>
  Errors are values.  The constructors are the error classes the sources throw; the
  message texts are kept short, they carry no behaviour.  An
  \<^verbatim>\<open>AmountTooLargeError\<close> carries its \<^verbatim>\<open>ilpErrorData\<close>.
\<close>

type_synonym byte = "8 word"

datatype error =
    Error string
  | AmountTooLargeError "byte list"
  | InsufficientLiquidityError
  | InternalError
  | ReferenceError string

text \<open>
  A call either returns or throws.  Where a call works on a state, the state is returned
  beside the result in both cases, so a throw after a mutation keeps the mutation.
\<close>

datatype 'a result = Return 'a | Throw error

section \<open>The OER writer\<close>

text \<open>
  \<^verbatim>\<open>Writer\<close> of oer-utils.  A writer is the list of its components; the model
  keeps them concatenated, which is what \<^verbatim>\<open>getBuffer\<close> returns.
\<close>

text \<open>The \<open>len\<close> low-order bytes of \<open>v\<close>, most significant first.\<close>

fun be_bytes :: "nat \<Rightarrow> nat \<Rightarrow> byte list" where
  "be_bytes 0 v = []"
| "be_bytes (Suc n) v = be_bytes n (v div 256) @ [of_nat (v mod 256)]"

text \<open>\<^verbatim>\<open>Writer.UINT_RANGES\<close>; a missing entry compares as \<^verbatim>\<open>NaN\<close>.\<close>

definition UINT_RANGES :: "nat \<Rightarrow> BigNumber" where
  "UINT_RANGES len =
     (if len = 1 then BN 0xff
      else if len = 2 then BN 0xffff
      else if len = 3 then BN 0xffffff
      else if len = 4 then BN 0xffffffff
      else if len = 5 then BN 0xffffffffff
      else if len = 6 then BN 0xffffffffffff
      else if len = 8 then BN (2 ^ 64)
      else NaN)"

text \<open>
  \<^verbatim>\<open>writeUInt(value, length)\<close> for a value that is not an array.  Both branches of
  the source (\<^verbatim>\<open>writeUIntBE\<close> and the hexadecimal string) write the value
  big-endian in \<open>len\<close> bytes; the hexadecimal branch throws from
  \<^verbatim>\<open>'0'.repeat\<close> when the value has more than \<open>2 * len\<close> digits.  The
  check that a JavaScript number is at most \<^verbatim>\<open>MAX_SAFE_INTEGER\<close> is not
  modelled apart: the sources pass numbers only for lengths up to four bytes, where such
  a number is out of range as well, and pass 64-bit amounts as strings.
\<close>

definition writeUInt :: "BigNumber \<Rightarrow> nat \<Rightarrow> byte list result" where
  "writeUInt v len =
     (if \<not> isInteger v then Throw (Error ''UInt must be an integer'')
      else if lt v (BN 0) then Throw (Error ''UInt must be positive'')
      else if len = 0 then Throw (Error ''UInt length must be greater than zero'')
      else if gt v (UINT_RANGES len) then Throw (Error ''UInt does not fit'')
      else (case v of
              BN n \<Rightarrow>
                if nat n < 256 ^ len then Return (be_bytes len (nat n))
                else Throw (Error ''Invalid count value'')
            | _ \<Rightarrow> Throw (Error ''UInt must be an integer'')))"

definition writeUInt8 :: "BigNumber \<Rightarrow> byte list result" where
  "writeUInt8 v = writeUInt v 1"

definition writeUInt32 :: "BigNumber \<Rightarrow> byte list result" where
  "writeUInt32 v = writeUInt v 4"

definition writeUInt64 :: "BigNumber \<Rightarrow> byte list result" where
  "writeUInt64 v = writeUInt v 8"

text \<open>Writes in sequence: the first one that throws ends the sequence.\<close>

fun writes :: "byte list result list \<Rightarrow> byte list result" where
  "writes [] = Return []"
| "writes (w # ws) =
     (case w of
        Throw e \<Rightarrow> Throw e
      | Return b \<Rightarrow> (case writes ws of Throw e \<Rightarrow> Throw e | Return bs \<Rightarrow> Return (b @ bs)))"

text \<open>The length of \<^verbatim>\<open>value.toString(2)\<close>.\<close>

fun binaryLength :: "nat \<Rightarrow> nat" where
  "binaryLength n = (if n < 2 then 1 else Suc (binaryLength (n div 2)))"

declare binaryLength.simps [simp del]

text \<open>\<^verbatim>\<open>Math.ceil(bits / 8)\<close>.\<close>

definition ceil8 :: "nat \<Rightarrow> nat" where
  "ceil8 bits = (bits + 7) div 8"

definition writeVarOctetString :: "byte list \<Rightarrow> byte list result" where
  "writeVarOctetString buffer =
     (if length buffer \<le> 127 then
        writes [writeUInt8 (BN (int (length buffer))), Return buffer]
      else
        let lengthOfLength = ceil8 (binaryLength (length buffer)) in
        writes [writeUInt8 (BN (int (or 128 lengthOfLength))),
                writeUInt (BN (int (length buffer))) lengthOfLength,
                Return buffer])"

text \<open>\<^verbatim>\<open>writeVarUInt(value)\<close> for a JavaScript number.\<close>

definition writeVarUInt :: "BigNumber \<Rightarrow> byte list result" where
  "writeVarUInt v =
     (if \<not> isInteger v then Throw (Error ''UInt must be an integer'')
      else if gt v (BN 0x1fffffffffffff) then Throw (Error ''UInt is larger than safe JavaScript range'')
      else if lt v (BN 0) then Throw (Error ''UInt must be positive'')
      else (case v of
              BN n \<Rightarrow>
                writeVarOctetString (be_bytes (ceil8 (binaryLength (nat n))) (nat n))
            | _ \<Rightarrow> Throw (Error ''UInt must be an integer'')))"

section \<open>The OER reader\<close>

text \<open>
  Modelled from the spec: \<^verbatim>\<open>Reader\<close> of oer-utils is missing.  It reads what
  the writer writes: fixed-length big-endian unsigned integers, and octet strings behind
  a length prefix that is one byte up to 127 and otherwise a byte with the high bit set
  and the length of the length, followed by the length.  A reader is the list of the
  bytes not read yet; a read returns its value and the rest.
\<close>

definition uint_of_bytes :: "byte list \<Rightarrow> nat" where
  "uint_of_bytes bs = foldl (\<lambda>acc b. acc * 256 + unat b) 0 bs"

text \<open>Modelled from the spec: \<^verbatim>\<open>read(bytes)\<close>.\<close>

definition read :: "nat \<Rightarrow> byte list \<Rightarrow> (byte list \<times> byte list) result" where
  "read n bs =
     (if length bs < n then Throw (Error ''Tried to read more bytes than are left'')
      else Return (take n bs, drop n bs))"

text \<open>What runs after a read that returned.\<close>

definition bind_result :: "'a result \<Rightarrow> ('a \<Rightarrow> 'b result) \<Rightarrow> 'b result" where
  "bind_result r f = (case r of Throw e \<Rightarrow> Throw e | Return x \<Rightarrow> f x)"

text \<open>Modelled from the spec: \<^verbatim>\<open>readUInt(length)\<close>.\<close>

definition readUInt :: "nat \<Rightarrow> byte list \<Rightarrow> (nat \<times> byte list) result" where
  "readUInt len bs =
     (if len = 0 then Throw (Error ''UInt length must be greater than zero'')
      else bind_result (read len bs) (\<lambda>(v, rest). Return (uint_of_bytes v, rest)))"

definition readUInt8 :: "byte list \<Rightarrow> (nat \<times> byte list) result" where
  "readUInt8 bs = readUInt 1 bs"

definition readUInt32 :: "byte list \<Rightarrow> (nat \<times> byte list) result" where
  "readUInt32 bs = readUInt 4 bs"

text \<open>Modelled from the spec: \<^verbatim>\<open>readUInt64()\<close>, which returns the two halves.\<close>

definition readUInt64 :: "byte list \<Rightarrow> ((nat \<times> nat) \<times> byte list) result" where
  "readUInt64 bs =
     bind_result (readUInt32 bs) (\<lambda>(hi, rest).
       bind_result (readUInt32 rest) (\<lambda>(lo, rest'). Return ((hi, lo), rest')))"

text \<open>Modelled from the spec: \<^verbatim>\<open>readLengthPrefix()\<close>.\<close>

definition readLengthPrefix :: "byte list \<Rightarrow> (nat \<times> byte list) result" where
  "readLengthPrefix bs =
     bind_result (readUInt8 bs) (\<lambda>(len, rest).
       if 128 \<le> len then readUInt (len - 128) rest else Return (len, rest))"

text \<open>Modelled from the spec: \<^verbatim>\<open>readVarOctetString()\<close>.\<close>

definition readVarOctetString :: "byte list \<Rightarrow> (byte list \<times> byte list) result" where
  "readVarOctetString bs =
     bind_result (readLengthPrefix bs) (\<lambda>(len, rest). read len rest)"

text \<open>Modelled from the spec: \<^verbatim>\<open>readVarUInt()\<close>.\<close>

definition readVarUInt :: "byte list \<Rightarrow> (nat \<times> byte list) result" where
  "readVarUInt bs =
     bind_result (readVarOctetString bs) (\<lambda>(v, rest).
       if v = [] then Throw (Error ''UInt of length 0 is invalid'')
       else if 6 < length v then Throw (Error ''UInt is larger than safe JavaScript range'')
       else Return (uint_of_bytes v, rest))"

section \<open>The ILP packet codec\<close>

text \<open>
  \<^verbatim>\<open>ilp-packet/index.ts\<close>.  A packet \<^verbatim>\<open>{type, data}\<close> is a tagged union:
  the constructor is the type and its arguments are the fields of \<^verbatim>\<open>data\<close>, in
  the order of the interface.  Dates are a type parameter.  The conversions the file
  imports, and those of Node's \<^verbatim>\<open>Buffer\<close> and of \<^verbatim>\<open>Long\<close> for base64 and
  decimal text, are the fields of a \<open>codec\<close>.
\<close>

datatype 'd packet =
    IlpPayment string string string
  | IlqpLiquidityRequest string int
  | IlqpLiquidityResponse "byte list" string int 'd
  | IlqpBySourceRequest string string int
  | IlqpBySourceResponse string int
  | IlqpByDestinationRequest string string int
  | IlqpByDestinationResponse string int
  | IlpError string string string "string list" 'd string
  | IlpFulfillment string
  | IlpForwardedPayment string string

record 'd codec =
  fromBase64 :: "string \<Rightarrow> byte list"
  bufferToBase64url :: "byte list \<Rightarrow> string"
  dateToGeneralizedTime :: "'d \<Rightarrow> string"
  generalizedTimeToDate :: "string \<Rightarrow> 'd result"
  Long_fromString :: "string \<Rightarrow> nat"
  Long_toString :: "nat \<Rightarrow> string"
  stringToTwoNumbers :: "string \<Rightarrow> nat \<times> nat"
  twoNumbersToString :: "nat \<times> nat \<Rightarrow> string"

definition TYPE_ILP_PAYMENT :: nat where "TYPE_ILP_PAYMENT = 1"
definition TYPE_ILQP_LIQUIDITY_REQUEST :: nat where "TYPE_ILQP_LIQUIDITY_REQUEST = 2"
definition TYPE_ILQP_LIQUIDITY_RESPONSE :: nat where "TYPE_ILQP_LIQUIDITY_RESPONSE = 3"
definition TYPE_ILQP_BY_SOURCE_REQUEST :: nat where "TYPE_ILQP_BY_SOURCE_REQUEST = 4"
definition TYPE_ILQP_BY_SOURCE_RESPONSE :: nat where "TYPE_ILQP_BY_SOURCE_RESPONSE = 5"
definition TYPE_ILQP_BY_DESTINATION_REQUEST :: nat where "TYPE_ILQP_BY_DESTINATION_REQUEST = 6"
definition TYPE_ILQP_BY_DESTINATION_RESPONSE :: nat where "TYPE_ILQP_BY_DESTINATION_RESPONSE = 7"
definition TYPE_ILP_ERROR :: nat where "TYPE_ILP_ERROR = 8"
definition TYPE_ILP_FULFILLMENT :: nat where "TYPE_ILP_FULFILLMENT = 9"
definition TYPE_ILP_FORWARDED_PAYMENT :: nat where "TYPE_ILP_FORWARDED_PAYMENT = 10"

text \<open>
  \<^verbatim>\<open>Buffer.from(s, 'ascii')\<close> keeps the low byte of every character, and
  \<^verbatim>\<open>buffer.toString('ascii')\<close> clears the high bit of every byte.
\<close>

definition fromAscii :: "string \<Rightarrow> byte list" where
  "fromAscii str = map (\<lambda>c. of_nat (of_char c)) str"

definition toAscii :: "byte list \<Rightarrow> string" where
  "toAscii bs = map (\<lambda>b. char_of (unat b mod 128)) bs"

definition serializeEnvelope :: "nat \<Rightarrow> byte list \<Rightarrow> byte list result" where
  "serializeEnvelope type contents =
     writes [writeUInt8 (BN (int type)), writeVarOctetString contents]"

definition deserializeEnvelope :: "byte list \<Rightarrow> (nat \<times> byte list) result" where
  "deserializeEnvelope binary =
     bind_result (readUInt8 binary) (\<lambda>(type, rest).
       bind_result (readVarOctetString rest) (\<lambda>(contents, rest'). Return (type, contents)))"

text \<open>The body of a serializer, put in the envelope when every write succeeded.\<close>

definition envelope :: "nat \<Rightarrow> byte list result list \<Rightarrow> byte list result" where
  "envelope type ws = bind_result (writes ws) (serializeEnvelope type)"

text \<open>\<^verbatim>\<open>writeUInt64\<close> of an array of two numbers.\<close>

definition writeUInt64_pair :: "nat \<times> nat \<Rightarrow> byte list result" where
  "writeUInt64_pair v = writes [writeUInt32 (BN (int (fst v))), writeUInt32 (BN (int (snd v)))]"

definition ILP_ERROR_CODE_LENGTH :: nat where
  "ILP_ERROR_CODE_LENGTH = 3"

definition SIZE_OF_POINT :: nat where
  "SIZE_OF_POINT = 16"

text \<open>
  \<^verbatim>\<open>serializeIlpPacket\<close> with the serializer of each type in its case.  The
  \<^verbatim>\<open>default\<close> case of the source is for a type that is none of the ten.
\<close>

fun serializeIlpPacket :: "'d codec \<Rightarrow> 'd packet \<Rightarrow> byte list result" where
  "serializeIlpPacket c (IlpPayment amount account dat) =
     (let amount' = Long_fromString c amount in
      envelope TYPE_ILP_PAYMENT
        [writeUInt32 (BN (int (amount' div 2 ^ 32))),
         writeUInt32 (BN (int (amount' mod 2 ^ 32))),
         writeVarOctetString (fromAscii account),
         writeVarOctetString (fromBase64 c dat),
         writeUInt8 (BN 0)])"
| "serializeIlpPacket c (IlqpLiquidityRequest destinationAccount destinationHoldDuration) =
     envelope TYPE_ILQP_LIQUIDITY_REQUEST
       [writeVarOctetString (fromAscii destinationAccount),
        writeUInt32 (BN destinationHoldDuration),
        writeUInt8 (BN 0)]"
| "serializeIlpPacket c (IlqpLiquidityResponse liquidityCurve appliesToPrefix sourceHoldDuration expiresAt) =
     (if length liquidityCurve mod SIZE_OF_POINT \<noteq> 0
      then Throw (Error ''invalid liquidity curve, length must be multiple of 16'')
      else
        envelope TYPE_ILQP_LIQUIDITY_RESPONSE
          [writeVarUInt (BN (int (length liquidityCurve div SIZE_OF_POINT))),
           Return liquidityCurve,
           writeVarOctetString (fromAscii appliesToPrefix),
           writeUInt32 (BN sourceHoldDuration),
           writeVarOctetString (fromAscii (dateToGeneralizedTime c expiresAt)),
           writeUInt8 (BN 0)])"
| "serializeIlpPacket c (IlqpBySourceRequest destinationAccount sourceAmount destinationHoldDuration) =
     envelope TYPE_ILQP_BY_SOURCE_REQUEST
       [writeVarOctetString (fromAscii destinationAccount),
        writeUInt64_pair (stringToTwoNumbers c sourceAmount),
        writeUInt32 (BN destinationHoldDuration),
        writeUInt8 (BN 0)]"
| "serializeIlpPacket c (IlqpBySourceResponse destinationAmount sourceHoldDuration) =
     envelope TYPE_ILQP_BY_SOURCE_RESPONSE
       [writeUInt64_pair (stringToTwoNumbers c destinationAmount),
        writeUInt32 (BN sourceHoldDuration),
        writeUInt8 (BN 0)]"
| "serializeIlpPacket c (IlqpByDestinationRequest destinationAccount destinationAmount destinationHoldDuration) =
     envelope TYPE_ILQP_BY_DESTINATION_REQUEST
       [writeVarOctetString (fromAscii destinationAccount),
        writeUInt64_pair (stringToTwoNumbers c destinationAmount),
        writeUInt32 (BN destinationHoldDuration),
        writeUInt8 (BN 0)]"
| "serializeIlpPacket c (IlqpByDestinationResponse sourceAmount sourceHoldDuration) =
     envelope TYPE_ILQP_BY_DESTINATION_RESPONSE
       [writeUInt64_pair (stringToTwoNumbers c sourceAmount),
        writeUInt32 (BN sourceHoldDuration),
        writeUInt8 (BN 0)]"
| "serializeIlpPacket c (IlpError code' name' triggeredBy' forwardedBy triggeredAt dat) =
     (let codeBuffer = fromAscii code' in
      if length codeBuffer \<noteq> ILP_ERROR_CODE_LENGTH
      then Throw (Error ''ILP error codes must be three bytes long'')
      else
        envelope TYPE_ILP_ERROR
          ([Return codeBuffer,
            writeVarOctetString (fromAscii name'),
            writeVarOctetString (fromAscii triggeredBy'),
            writeVarUInt (BN (int (length forwardedBy)))]
           @ map (\<lambda>f. writeVarOctetString (fromAscii f)) forwardedBy
           @ [writeVarOctetString (fromAscii (dateToGeneralizedTime c triggeredAt)),
              writeVarOctetString (fromAscii dat),
              writeUInt8 (BN 0)]))"
| "serializeIlpPacket c (IlpFulfillment dat) =
     envelope TYPE_ILP_FULFILLMENT
       [writeVarOctetString (fromBase64 c dat),
        writeUInt8 (BN 0)]"
| "serializeIlpPacket c (IlpForwardedPayment account dat) =
     envelope TYPE_ILP_FORWARDED_PAYMENT
       [writeVarOctetString (fromAscii account),
        writeVarOctetString (fromBase64 c dat),
        writeUInt8 (BN 0)]"

text \<open>
  The deserializers.  Each one opens the envelope, checks the type and reads the fields;
  the bytes that remain are ignored.
\<close>

definition openEnvelope :: "nat \<Rightarrow> byte list \<Rightarrow> byte list result" where
  "openEnvelope expected binary =
     bind_result (deserializeEnvelope binary) (\<lambda>(type, contents).
       if type \<noteq> expected then Throw (Error ''Packet has incorrect type'')
       else Return contents)"

definition readAscii :: "byte list \<Rightarrow> (string \<times> byte list) result" where
  "readAscii bs = bind_result (readVarOctetString bs) (\<lambda>(v, rest). Return (toAscii v, rest))"

definition deserializeIlpPayment :: "'d codec \<Rightarrow> byte list \<Rightarrow> 'd packet result" where
  "deserializeIlpPayment c binary =
     bind_result (openEnvelope TYPE_ILP_PAYMENT binary) (\<lambda>reader.
     bind_result (readUInt32 reader) (\<lambda>(highBits, reader).
     bind_result (readUInt32 reader) (\<lambda>(lowBits, reader).
     bind_result (readAscii reader) (\<lambda>(account, reader).
     bind_result (readVarOctetString reader) (\<lambda>(dat, reader).
       Return (IlpPayment (Long_toString c (highBits * 2 ^ 32 + lowBits)) account
                 (bufferToBase64url c dat)))))))"

text \<open>
  In \<^verbatim>\<open>deserializeIlpForwardedPayment\<close> the data is passed to
  \<^verbatim>\<open>base64url\<close>, a name the file neither imports nor declares (the import is
  \<^verbatim>\<open>bufferToBase64url\<close>).  Evaluating the call resolves the name first, which
  throws a \<^verbatim>\<open>ReferenceError\<close> before the argument is read.
\<close>

definition deserializeIlpForwardedPayment :: "'d codec \<Rightarrow> byte list \<Rightarrow> 'd packet result" where
  "deserializeIlpForwardedPayment c binary =
     bind_result (openEnvelope TYPE_ILP_FORWARDED_PAYMENT binary) (\<lambda>reader.
     bind_result (readAscii reader) (\<lambda>(account, reader).
       Throw (ReferenceError ''base64url is not defined'')))"

definition deserializeIlqpLiquidityRequest :: "'d codec \<Rightarrow> byte list \<Rightarrow> 'd packet result" where
  "deserializeIlqpLiquidityRequest c binary =
     bind_result (openEnvelope TYPE_ILQP_LIQUIDITY_REQUEST binary) (\<lambda>reader.
     bind_result (readAscii reader) (\<lambda>(destinationAccount, reader).
     bind_result (readUInt32 reader) (\<lambda>(destinationHoldDuration, reader).
       Return (IlqpLiquidityRequest destinationAccount (int destinationHoldDuration)))))"

definition deserializeIlqpLiquidityResponse :: "'d codec \<Rightarrow> byte list \<Rightarrow> 'd packet result" where
  "deserializeIlqpLiquidityResponse c binary =
     bind_result (openEnvelope TYPE_ILQP_LIQUIDITY_RESPONSE binary) (\<lambda>reader.
     bind_result (readVarUInt reader) (\<lambda>(numPoints, reader).
     bind_result (read (numPoints * SIZE_OF_POINT) reader) (\<lambda>(liquidityCurve, reader).
     bind_result (readAscii reader) (\<lambda>(appliesToPrefix, reader).
     bind_result (readUInt32 reader) (\<lambda>(sourceHoldDuration, reader).
     bind_result (readAscii reader) (\<lambda>(time, reader).
     bind_result (generalizedTimeToDate c time) (\<lambda>expiresAt.
       Return (IlqpLiquidityResponse liquidityCurve appliesToPrefix
                 (int sourceHoldDuration) expiresAt))))))))"

definition deserializeIlqpBySourceRequest :: "'d codec \<Rightarrow> byte list \<Rightarrow> 'd packet result" where
  "deserializeIlqpBySourceRequest c binary =
     bind_result (openEnvelope TYPE_ILQP_BY_SOURCE_REQUEST binary) (\<lambda>reader.
     bind_result (readAscii reader) (\<lambda>(destinationAccount, reader).
     bind_result (readUInt64 reader) (\<lambda>(sourceAmount, reader).
     bind_result (readUInt32 reader) (\<lambda>(destinationHoldDuration, reader).
       Return (IlqpBySourceRequest destinationAccount (twoNumbersToString c sourceAmount)
                 (int destinationHoldDuration))))))"

definition deserializeIlqpBySourceResponse :: "'d codec \<Rightarrow> byte list \<Rightarrow> 'd packet result" where
  "deserializeIlqpBySourceResponse c binary =
     bind_result (openEnvelope TYPE_ILQP_BY_SOURCE_RESPONSE binary) (\<lambda>reader.
     bind_result (readUInt64 reader) (\<lambda>(destinationAmount, reader).
     bind_result (readUInt32 reader) (\<lambda>(sourceHoldDuration, reader).
       Return (IlqpBySourceResponse (twoNumbersToString c destinationAmount)
                 (int sourceHoldDuration)))))"

definition deserializeIlqpByDestinationRequest :: "'d codec \<Rightarrow> byte list \<Rightarrow> 'd packet result" where
  "deserializeIlqpByDestinationRequest c binary =
     bind_result (openEnvelope TYPE_ILQP_BY_DESTINATION_REQUEST binary) (\<lambda>reader.
     bind_result (readAscii reader) (\<lambda>(destinationAccount, reader).
     bind_result (readUInt64 reader) (\<lambda>(destinationAmount, reader).
     bind_result (readUInt32 reader) (\<lambda>(destinationHoldDuration, reader).
       Return (IlqpByDestinationRequest destinationAccount
                 (twoNumbersToString c destinationAmount) (int destinationHoldDuration))))))"

definition deserializeIlqpByDestinationResponse :: "'d codec \<Rightarrow> byte list \<Rightarrow> 'd packet result" where
  "deserializeIlqpByDestinationResponse c binary =
     bind_result (openEnvelope TYPE_ILQP_BY_DESTINATION_RESPONSE binary) (\<lambda>reader.
     bind_result (readUInt64 reader) (\<lambda>(sourceAmount, reader).
     bind_result (readUInt32 reader) (\<lambda>(sourceHoldDuration, reader).
       Return (IlqpByDestinationResponse (twoNumbersToString c sourceAmount)
                 (int sourceHoldDuration)))))"

text \<open>The loop that reads \<^verbatim>\<open>forwardedBy\<close>.\<close>

fun readForwardedBy :: "nat \<Rightarrow> byte list \<Rightarrow> (string list \<times> byte list) result" where
  "readForwardedBy 0 reader = Return ([], reader)"
| "readForwardedBy (Suc n) reader =
     bind_result (readAscii reader) (\<lambda>(f, reader).
     bind_result (readForwardedBy n reader) (\<lambda>(fs, reader). Return (f # fs, reader)))"

definition deserializeIlpError :: "'d codec \<Rightarrow> byte list \<Rightarrow> 'd packet result" where
  "deserializeIlpError c binary =
     bind_result (openEnvelope TYPE_ILP_ERROR binary) (\<lambda>reader.
     bind_result (read ILP_ERROR_CODE_LENGTH reader) (\<lambda>(code', reader).
     bind_result (readAscii reader) (\<lambda>(name', reader).
     bind_result (readAscii reader) (\<lambda>(triggeredBy', reader).
     bind_result (readVarUInt reader) (\<lambda>(forwardedByLength, reader).
     bind_result (readForwardedBy forwardedByLength reader) (\<lambda>(forwardedBy, reader).
     bind_result (readAscii reader) (\<lambda>(time, reader).
     bind_result (generalizedTimeToDate c time) (\<lambda>triggeredAt.
     bind_result (readAscii reader) (\<lambda>(dat, reader).
       Return (IlpError (toAscii code') name' triggeredBy' forwardedBy triggeredAt dat))))))))))"

definition deserializeIlpFulfillment :: "'d codec \<Rightarrow> byte list \<Rightarrow> 'd packet result" where
  "deserializeIlpFulfillment c binary =
     bind_result (openEnvelope TYPE_ILP_FULFILLMENT binary) (\<lambda>reader.
     bind_result (readVarOctetString reader) (\<lambda>(dat, reader).
       Return (IlpFulfillment (bufferToBase64url c dat))))"

text \<open>
  \<^verbatim>\<open>deserializeIlpPacket\<close>: the first byte chooses the deserializer.  The result
  is the \<^verbatim>\<open>typeString\<close> and the packet (its \<^verbatim>\<open>type\<close> and \<^verbatim>\<open>data\<close>).
\<close>

definition deserializeIlpPacket :: "'d codec \<Rightarrow> byte list \<Rightarrow> (string \<times> 'd packet) result" where
  "deserializeIlpPacket c binary =
     (let type = (case binary of [] \<Rightarrow> None | b # bs \<Rightarrow> Some (unat b)) in
      if type = Some TYPE_ILP_PAYMENT then
        bind_result (deserializeIlpPayment c binary) (\<lambda>p. Return (''ilp_payment'', p))
      else if type = Some TYPE_ILQP_LIQUIDITY_REQUEST then
        bind_result (deserializeIlqpLiquidityRequest c binary)
          (\<lambda>p. Return (''ilqp_liquidity_request'', p))
      else if type = Some TYPE_ILQP_LIQUIDITY_RESPONSE then
        bind_result (deserializeIlqpLiquidityResponse c binary)
          (\<lambda>p. Return (''ilqp_liquidity_response'', p))
      else if type = Some TYPE_ILQP_BY_SOURCE_REQUEST then
        bind_result (deserializeIlqpBySourceRequest c binary)
          (\<lambda>p. Return (''ilqp_by_source_request'', p))
      else if type = Some TYPE_ILQP_BY_SOURCE_RESPONSE then
        bind_result (deserializeIlqpBySourceResponse c binary)
          (\<lambda>p. Return (''ilqp_by_source_response'', p))
      else if type = Some TYPE_ILQP_BY_DESTINATION_REQUEST then
        bind_result (deserializeIlqpByDestinationRequest c binary)
          (\<lambda>p. Return (''ilqp_by_destination_request'', p))
      else if type = Some TYPE_ILQP_BY_DESTINATION_RESPONSE then
        bind_result (deserializeIlqpByDestinationResponse c binary)
          (\<lambda>p. Return (''ilqp_by_destination_response'', p))
      else if type = Some TYPE_ILP_ERROR then
        bind_result (deserializeIlpError c binary) (\<lambda>p. Return (''ilp_error'', p))
      else if type = Some TYPE_ILP_FULFILLMENT then
        bind_result (deserializeIlpFulfillment c binary) (\<lambda>p. Return (''ilp_fulfillment'', p))
      else if type = Some TYPE_ILP_FORWARDED_PAYMENT then
        bind_result (deserializeIlpForwardedPayment c binary)
          (\<lambda>p. Return (''ilp_forwarded_payment'', p))
      else Throw (Error ''Packet has invalid type''))"

section \<open>The Lightning plugin and its per-peer account\<close>

text \<open>
  \<^verbatim>\<open>LightningPlugin._balance\<close> and the other fields of the master plugin that
  the account reads.
\<close>

record balance_config =
  minimum :: BigNumber
  maximum :: BigNumber
  settleTo :: BigNumber
  settleThreshold :: "BigNumber option"

datatype role = client | server

record plugin =
  plugin_role :: role
  maxPacketAmount :: BigNumber
  settleOnConnect :: bool
  plugin_balance :: balance_config

text \<open>
  The options of the constructor.  A \<^verbatim>\<open>BigNumber.Value\<close> is a JavaScript number,
  a string or a \<^verbatim>\<open>BigNumber\<close>; an option that was not given is \<open>None\<close>.
  \<^verbatim>\<open>lndIdentityPubkey\<close> and \<^verbatim>\<open>lndHost\<close> are \<open>None\<close> when the value
  passed is not of type string.
\<close>

datatype js_value = JsNumber BigNumber | JsString string | JsBigNumber BigNumber

text \<open>JavaScript truthiness: the numbers 0 and NaN and the empty string are falsy.\<close>

fun truthy :: "js_value \<Rightarrow> bool" where
  "truthy (JsNumber n) = (n \<noteq> BN 0 \<and> n \<noteq> NaN)"
| "truthy (JsString s) = (s \<noteq> [])"
| "truthy (JsBigNumber b) = True"

text \<open>
  \<^verbatim>\<open>new BigNumber(v)\<close>; how bignumber.js reads a string is the parameter
  \<open>parse\<close>.
\<close>

fun toBigNumber :: "(string \<Rightarrow> BigNumber) \<Rightarrow> js_value \<Rightarrow> BigNumber" where
  "toBigNumber parse (JsNumber n) = n"
| "toBigNumber parse (JsString s) = parse s"
| "toBigNumber parse (JsBigNumber b) = b"

record balance_opts =
  opt_minimum :: "js_value option"
  opt_maximum :: "js_value option"
  opt_settleTo :: "js_value option"
  opt_settleThreshold :: "js_value option"

record plugin_opts =
  opt_role :: "role option"
  opt_lndIdentityPubkey :: "string option"
  opt_lndHost :: "string option"
  opt_settleOnConnect :: "bool option"
  opt_maxPacketAmount :: "js_value option"
  opt_balance :: "balance_opts option"

text \<open>A destructuring default: the default replaces a value that was not given.\<close>

definition orDefault :: "'a option \<Rightarrow> 'a \<Rightarrow> 'a" where
  "orDefault v d = (case v of None \<Rightarrow> d | Some x \<Rightarrow> x)"

text \<open>
  The constructor of \<^verbatim>\<open>LightningPlugin\<close>, up to the validation of the balance
  configuration.  What follows in the source (creating the client or server plugin and
  wiring its events) reads none of the fields set here.
\<close>

definition LightningPlugin ::
  "(string \<Rightarrow> BigNumber) \<Rightarrow> plugin_opts \<Rightarrow> plugin result" where
  "LightningPlugin parse opts =
     (let role = orDefault (opt_role opts) client;
          settleOnConnect' = orDefault (opt_settleOnConnect opts) (role = client);
          maxPacketAmount' = orDefault (opt_maxPacketAmount opts) (JsNumber PosInf);
          bopts = orDefault (opt_balance opts)
                    \<lparr> opt_minimum = None, opt_maximum = None,
                      opt_settleTo = None, opt_settleThreshold = None \<rparr>;
          maximum' = orDefault (opt_maximum bopts) (JsNumber PosInf);
          settleTo' = orDefault (opt_settleTo bopts) (JsNumber (BN 0));
          settleThreshold' = opt_settleThreshold bopts;
          minimum' = orDefault (opt_minimum bopts) (JsNumber NegInf)
      in
      if opt_lndIdentityPubkey opts = None
      then Throw (Error ''Lightning identity pubkey required'')
      else if opt_lndHost opts = None
      then Throw (Error ''Lightning peering host required'')
      else
        let bal = \<lparr> minimum = toBigNumber parse minimum',
                    maximum = toBigNumber parse maximum',
                    settleTo = toBigNumber parse settleTo',
                    settleThreshold =
                      (case settleThreshold' of
                         None \<Rightarrow> None
                       | Some v \<Rightarrow> if truthy v then Some (toBigNumber parse v) else None) \<rparr>;
            this = \<lparr> plugin_role = role,
                     maxPacketAmount = abs_bn (toBigNumber parse maxPacketAmount'),
                     settleOnConnect = settleOnConnect',
                     plugin_balance = bal \<rparr>
        in
        (case settleThreshold bal of
           Some st \<Rightarrow>
             if \<not> gte (maximum bal) (settleTo bal)
             then Throw (Error ''maximum balance must be greater than or equal to settleTo'')
             else if \<not> gte (settleTo bal) st
             then Throw (Error ''settleTo must be greater than or equal to settleThreshold'')
             else if \<not> gte st (minimum bal)
             then Throw (Error ''settleThreshold must be greater than or equal to minimum balance'')
             else Return this
         | None \<Rightarrow>
             if \<not> gt (maximum bal) (minimum bal)
             then Throw (Error ''maximum balance must be greater than minimum balance'')
             else Return this))"

text \<open>\<^verbatim>\<open>LightningAccount.account\<close>: the state kept for one counterparty.\<close>

record account =
  balance :: BigNumber
  payoutAmount :: BigNumber
  invoices :: "string set"
  lndIdentityPubkey :: "string option"

text \<open>The constructor of \<^verbatim>\<open>LightningAccount\<close>.\<close>

definition new_account :: "plugin \<Rightarrow> account" where
  "new_account master =
     \<lparr> balance = BN 0,
       payoutAmount = (if gt (settleTo (plugin_balance master)) (BN 0) then PosInf else BN 0),
       invoices = {},
       lndIdentityPubkey = None \<rparr>"

text \<open>\<^verbatim>\<open>addBalance\<close> and \<^verbatim>\<open>subBalance\<close>, the only writers of \<^verbatim>\<open>balance\<close>.\<close>

definition addBalance :: "plugin \<Rightarrow> BigNumber \<Rightarrow> account \<Rightarrow> unit result \<times> account" where
  "addBalance master amount a =
     (if isZero amount then (Return (), a)
      else if lt amount (BN 0) then (Throw (Error ''cannot add negative amount to balance''), a)
      else
        let newBalance = plus_bn (balance a) amount in
        if gt newBalance (maximum (plugin_balance master))
        then (Throw (Error ''proposed balance exceeds maximum''), a)
        else (Return (), a\<lparr>balance := newBalance\<rparr>))"

definition subBalance :: "plugin \<Rightarrow> BigNumber \<Rightarrow> account \<Rightarrow> unit result \<times> account" where
  "subBalance master amount a =
     (if isZero amount then (Return (), a)
      else if lt amount (BN 0) then (Throw (Error ''cannot subtract negative amount from balance''), a)
      else
        let newBalance = minus_bn (balance a) amount in
        if lt newBalance (minimum (plugin_balance master))
        then (Throw (Error ''proposed balance is below the minimum''), a)
        else (Return (), a\<lparr>balance := newBalance\<rparr>))"

text \<open>The balance invariant of an account under its plugin's bounds.\<close>

definition within_bounds :: "plugin \<Rightarrow> account \<Rightarrow> bool" where
  "within_bounds master a =
     (lte (minimum (plugin_balance master)) (balance a) \<and>
      lte (balance a) (maximum (plugin_balance master)))"

text \<open>
  Every write of the balance in \<^verbatim>\<open>LightningAccount\<close> is a call of one of the two.
  A sequence of such calls with integer amounts, in whatever order the handlers make
  them; a call that throws leaves the account as it was, and the sequence goes on.
\<close>

datatype balance_call = AddBalance int | SubBalance int

fun call_amount :: "balance_call \<Rightarrow> int" where
  "call_amount (AddBalance d) = d"
| "call_amount (SubBalance d) = d"

fun do_call :: "plugin \<Rightarrow> balance_call \<Rightarrow> account \<Rightarrow> account" where
  "do_call master (AddBalance d) a = snd (addBalance master (BN d) a)"
| "do_call master (SubBalance d) a = snd (subBalance master (BN d) a)"

definition balance_calls :: "plugin \<Rightarrow> balance_call list \<Rightarrow> account \<Rightarrow> account" where
  "balance_calls master calls a = foldl (\<lambda>a' c. do_call master c a') a calls"

subsection \<open>Errors turned into REJECT packets\<close>

text \<open>A REJECT packet before it is serialized, without its message.\<close>

record reject =
  code :: string
  triggeredBy :: string
  data :: "byte list"

text \<open>
  Modelled from the spec: the error classes and \<^verbatim>\<open>errorToReject\<close> of the
  ilp-packet version the plugin imports are missing.  The spec's error taxonomy gives
  the codes (amount over the peer limit F08, insufficient liquidity T04, internal error
  T00, anything else F00) and says the F08 data encodes the received amount and the
  maximum; both are written as 64-bit unsigned integers with the OER writer.
\<close>

definition ilpErrorCode :: "error \<Rightarrow> string option" where
  "ilpErrorCode err =
     (case err of
        AmountTooLargeError d \<Rightarrow> Some ''F08''
      | InsufficientLiquidityError \<Rightarrow> Some ''T04''
      | InternalError \<Rightarrow> Some ''T00''
      | _ \<Rightarrow> None)"

definition ilpErrorData :: "error \<Rightarrow> byte list option" where
  "ilpErrorData err = (case err of AmountTooLargeError d \<Rightarrow> Some d | _ \<Rightarrow> None)"

text \<open>
  Modelled from the spec: \<^verbatim>\<open>new AmountTooLargeError(message, {receivedAmount,
  maximumAmount})\<close>.  An amount the writer refuses makes the constructor throw the writer's
  error instead.
\<close>

definition new_AmountTooLargeError :: "BigNumber \<Rightarrow> BigNumber \<Rightarrow> error" where
  "new_AmountTooLargeError receivedAmount maximumAmount =
     (case writeUInt64 receivedAmount of
        Throw e \<Rightarrow> e
      | Return r \<Rightarrow>
          (case writeUInt64 maximumAmount of
             Throw e \<Rightarrow> e
           | Return m \<Rightarrow> AmountTooLargeError (r @ m)))"

text \<open>Modelled from the spec: \<^verbatim>\<open>errorToReject(address, error)\<close>.\<close>

definition errorToReject :: "string \<Rightarrow> error \<Rightarrow> reject" where
  "errorToReject address err =
     \<lparr> code = orDefault (ilpErrorCode err) ''F00'',
       triggeredBy = address,
       data = orDefault (ilpErrorData err) [] \<rparr>"

subsection \<open>Settlement\<close>

text \<open>
  \<^verbatim>\<open>attemptSettle\<close> is an async function.  Its body runs without interruption up
  to \<^verbatim>\<open>await this.requestInvoice()\<close>; that part is
  \<open>attemptSettle_begin\<close>.  It returns \<open>None\<close> when the function returns
  without settling and \<open>Some budget\<close> when it is suspended with the optimistic
  credit made.  A throw of \<^verbatim>\<open>addBalance\<close> is outside the \<^verbatim>\<open>try\<close>.
\<close>

definition attemptSettle_begin :: "plugin \<Rightarrow> account \<Rightarrow> BigNumber option result \<times> account" where
  "attemptSettle_begin master a =
     (case settleThreshold (plugin_balance master) of
        None \<Rightarrow> (Return None, a)
      | Some threshold \<Rightarrow>
          if \<not> gt threshold (balance a) then (Return None, a)
          else
            let settlementBudget = minus_bn (settleTo (plugin_balance master)) (balance a) in
            if lte settlementBudget (BN 0) then (Return None, a)
            else
              let settlementBudget = minimum_of settlementBudget (payoutAmount a) in
              if lte settlementBudget (BN 0) then (Return None, a)
              else
                (case addBalance master settlementBudget a of
                   (Throw e, a') \<Rightarrow> (Throw e, a')
                 | (Return u, a') \<Rightarrow> (Return (Some settlementBudget), a')))"

text \<open>The \<^verbatim>\<open>catch\<close> block: the optimistic credit is taken back.\<close>

definition attemptSettle_revert :: "plugin \<Rightarrow> BigNumber \<Rightarrow> account \<Rightarrow> unit result \<times> account" where
  "attemptSettle_revert master settlementBudget a = subBalance master settlementBudget a"

text \<open>The rest of the \<^verbatim>\<open>try\<close> block after \<^verbatim>\<open>payInvoice\<close> resolved.\<close>

definition attemptSettle_commit :: "BigNumber \<Rightarrow> account \<Rightarrow> unit result \<times> account" where
  "attemptSettle_commit settlementBudget a =
     (Return (), a\<lparr>payoutAmount := plus_bn (payoutAmount a) settlementBudget\<rparr>)"

text \<open>
  What the two awaited calls do is the environment's choice: the invoice request fails,
  the payment fails, or the payment succeeds.
\<close>

datatype settle_outcome = InvoiceFailed | PaymentFailed | PaymentSucceeded

text \<open>
  One whole run of \<^verbatim>\<open>attemptSettle\<close> with nothing else running in between.  The
  second component is the amount handed to \<^verbatim>\<open>lnd.payInvoice\<close>, if it was called.
\<close>

definition attemptSettle ::
  "plugin \<Rightarrow> settle_outcome \<Rightarrow> account \<Rightarrow> unit result \<times> BigNumber option \<times> account" where
  "attemptSettle master outcome a =
     (case attemptSettle_begin master a of
        (Throw e, a1) \<Rightarrow> (Throw e, None, a1)
      | (Return None, a1) \<Rightarrow> (Return (), None, a1)
      | (Return (Some settlementBudget), a1) \<Rightarrow>
          (case outcome of
             InvoiceFailed \<Rightarrow>
               (case attemptSettle_revert master settlementBudget a1 of
                  (r, a2) \<Rightarrow> (r, None, a2))
           | PaymentFailed \<Rightarrow>
               (case attemptSettle_revert master settlementBudget a1 of
                  (r, a2) \<Rightarrow> (r, Some settlementBudget, a2))
           | PaymentSucceeded \<Rightarrow>
               (case attemptSettle_commit settlementBudget a1 of
                  (r, a2) \<Rightarrow> (r, Some settlementBudget, a2))))"

subsection \<open>Packets and invoices\<close>

text \<open>
  The response to a forwarded PREPARE, as \<^verbatim>\<open>handlePrepareResponse\<close> reads it: its
  type and, for a REJECT, its code.
\<close>

datatype response_packet = FulfillPacket | RejectPacket string | OtherPacket

text \<open>The budget of the settlement attempt a fire-and-forget call left suspended.\<close>

definition started :: "BigNumber option result \<Rightarrow> BigNumber option" where
  "started r = (case r of Return (Some b) \<Rightarrow> Some b | _ \<Rightarrow> None)"

text \<open>
  \<^verbatim>\<open>handlePrepareResponse(preparePacket, responsePacket)\<close>; \<open>amount\<close> is
  \<^verbatim>\<open>new BigNumber(preparePacket.data.amount)\<close>.  The call of
  \<^verbatim>\<open>attemptSettle\<close> is not awaited: its first part runs at once, and a rejection
  of its promise is not observed.
\<close>

definition handlePrepareResponse ::
  "plugin \<Rightarrow> BigNumber \<Rightarrow> response_packet \<Rightarrow> account \<Rightarrow> unit result \<times> BigNumber option \<times> account" where
  "handlePrepareResponse master amount responsePacket a =
     (if responsePacket = FulfillPacket then
        (case subBalance master amount a of
           (Throw e, a1) \<Rightarrow> (Throw InternalError, None, a1)
         | (Return u, a1) \<Rightarrow>
             let a2 = a1\<lparr>payoutAmount := plus_bn (payoutAmount a1) amount\<rparr> in
             (case attemptSettle_begin master a2 of
                (r, a3) \<Rightarrow> (Return (), started r, a3)))
      else if responsePacket = RejectPacket ''T04'' then
        (case attemptSettle_begin master a of
           (r, a1) \<Rightarrow> (Return (), started r, a1))
      else (Return (), None, a))"

text \<open>
  The data handler is called at most once, so it is given by what that call does: it
  resolves with a response buffer or it rejects.  \<open>None\<close> is no registered handler.
\<close>

datatype handler_outcome = Responds "byte list" | Fails error

text \<open>The packet type of a FULFILL in the ilp-packet version the plugin imports.\<close>

definition TYPE_ILP_FULFILL :: byte where
  "TYPE_ILP_FULFILL = 13"

datatype reply = IlpResponse "byte list" | IlpReject reject

record prepare_result =
  reply :: reply
  forwarded :: bool
  account_after :: account

text \<open>
  \<^verbatim>\<open>_handlePrepare(amount, expiresAt, dataHandler, ilp)\<close>, run with nothing else
  running while the data handler is awaited.  The result records whether the data handler
  was called.
\<close>

definition handlePrepare ::
  "plugin \<Rightarrow> BigNumber \<Rightarrow> handler_outcome option \<Rightarrow> account \<Rightarrow> prepare_result" where
  "handlePrepare master amount dataHandler a =
     (case dataHandler of
        None \<Rightarrow>
          \<lparr> reply = IlpReject (errorToReject [] (Error ''no request handler registered'')),
            forwarded = False, account_after = a \<rparr>
      | Some handler \<Rightarrow>
          if gt amount (maxPacketAmount master) then
            \<lparr> reply = IlpReject (errorToReject []
                        (new_AmountTooLargeError amount (maxPacketAmount master))),
              forwarded = False, account_after = a \<rparr>
          else
            (case addBalance master amount a of
               (Throw e, a1) \<Rightarrow>
                 \<lparr> reply = IlpReject (errorToReject [] InsufficientLiquidityError),
                   forwarded = False, account_after = a1 \<rparr>
             | (Return u, a1) \<Rightarrow>
                 (case handler of
                    Fails e \<Rightarrow>
                      \<lparr> reply = IlpReject (errorToReject [] e),
                        forwarded = True, account_after = a1 \<rparr>
                  | Responds response \<Rightarrow>
                      if response \<noteq> [] \<and> hd response = TYPE_ILP_FULFILL then
                        \<lparr> reply = IlpResponse response,
                          forwarded = True, account_after = a1 \<rparr>
                      else
                        (case subBalance master amount a1 of
                           (Throw e, a2) \<Rightarrow>
                             \<lparr> reply = IlpReject (errorToReject [] e),
                               forwarded = True, account_after = a2 \<rparr>
                         | (Return u, a2) \<Rightarrow>
                             \<lparr> reply = IlpResponse response,
                               forwarded = True, account_after = a2 \<rparr>))))"

text \<open>
  \<^verbatim>\<open>_handlePrepare\<close> gives way to other handlers at
  \<^verbatim>\<open>await dataHandler(ilp.data)\<close>, between the credit and the response: the
  account the second part finds may have been changed by them.  The first part, with
  whether a data handler is registered, returns the REJECT it answers with, or
  \<open>None\<close> when the data handler has been called.
\<close>

definition handlePrepare_begin ::
  "plugin \<Rightarrow> BigNumber \<Rightarrow> bool \<Rightarrow> account \<Rightarrow> reject option \<times> account" where
  "handlePrepare_begin master amount hasHandler a =
     (if \<not> hasHandler then
        (Some (errorToReject [] (Error ''no request handler registered'')), a)
      else if gt amount (maxPacketAmount master) then
        (Some (errorToReject [] (new_AmountTooLargeError amount (maxPacketAmount master))), a)
      else
        (case addBalance master amount a of
           (Throw e, a1) \<Rightarrow> (Some (errorToReject [] InsufficientLiquidityError), a1)
         | (Return u, a1) \<Rightarrow> (None, a1)))"

text \<open>The second part, on the account as it is when the data handler has answered.\<close>

definition handlePrepare_resume ::
  "plugin \<Rightarrow> BigNumber \<Rightarrow> handler_outcome \<Rightarrow> account \<Rightarrow> reply \<times> account" where
  "handlePrepare_resume master amount outcome a =
     (case outcome of
        Fails e \<Rightarrow> (IlpReject (errorToReject [] e), a)
      | Responds response \<Rightarrow>
          if response \<noteq> [] \<and> hd response = TYPE_ILP_FULFILL then (IlpResponse response, a)
          else
            (case subBalance master amount a of
               (Throw e, a2) \<Rightarrow> (IlpReject (errorToReject [] e), a2)
             | (Return u, a2) \<Rightarrow> (IlpResponse response, a2)))"

text \<open>An invoice notification of the Lightning daemon.\<close>

record invoice =
  settled :: bool
  payment_request :: string
  amt_paid_sat :: BigNumber

datatype money_outcome = MoneyAccepted | MoneyFails error

text \<open>
  \<^verbatim>\<open>_handleIncomingInvoice(invoice, moneyHandler)\<close>.  The second component is the
  amount the money handler was called with, when it was called.
\<close>

definition handleIncomingInvoice ::
  "plugin \<Rightarrow> invoice \<Rightarrow> money_outcome option \<Rightarrow> account \<Rightarrow> unit result \<times> BigNumber option \<times> account" where
  "handleIncomingInvoice master notified moneyHandler a =
     (if settled notified \<and> payment_request notified \<in> invoices a then
        (case subBalance master (amt_paid_sat notified) a of
           (Throw e, a1) \<Rightarrow> (Throw e, None, a1)
         | (Return u, a1) \<Rightarrow>
             (case moneyHandler of
                None \<Rightarrow> (Throw (Error ''no money handler registered''), None, a1)
              | Some MoneyAccepted \<Rightarrow> (Return (), Some (amt_paid_sat notified), a1)
              | Some (MoneyFails e) \<Rightarrow> (Throw e, Some (amt_paid_sat notified), a1)))
      else (Return (), None, a))"

text \<open>
  \<^verbatim>\<open>_handleInvoiceRequest()\<close>; the argument is what \<^verbatim>\<open>lnd.addInvoice()\<close>
  resolves with, the new invoice's payment request, or its rejection.
\<close>

definition handleInvoiceRequest :: "string result \<Rightarrow> account \<Rightarrow> string result \<times> account" where
  "handleInvoiceRequest addInvoice a =
     (case addInvoice of
        Throw e \<Rightarrow> (Throw e, a)
      | Return pr \<Rightarrow> (Return pr, a\<lparr>invoices := insert pr (invoices a)\<rparr>))"

subsection \<open>Settlement attempts in flight\<close>

text \<open>
  The plugin runs on one thread; an async function gives way to other handlers only at an
  \<^verbatim>\<open>await\<close>.  A run of the account is therefore a sequence of events, each the
  uninterrupted part of a handler.  A settlement attempt that is suspended is kept with
  its budget and with the call it waits for: \<^verbatim>\<open>requestInvoice\<close> or
  \<^verbatim>\<open>lnd.payInvoice\<close>.
\<close>

datatype phase = AwaitingInvoice | Paying

record attempt =
  att_budget :: BigNumber
  att_phase :: phase

record system =
  acct :: account
  attempts :: "attempt list"

datatype event =
    PrepareResponse BigNumber response_packet
  | IncomingInvoice invoice "money_outcome option"
  | InvoiceRequest "string result"
  | SettleCalled
  | InvoiceResolved nat bool
  | PayResolved nat bool

definition suspend :: "BigNumber option \<Rightarrow> attempt list \<Rightarrow> attempt list" where
  "suspend b ats =
     (case b of
        None \<Rightarrow> ats
      | Some settlementBudget \<Rightarrow>
          ats @ [\<lparr> att_budget = settlementBudget, att_phase = AwaitingInvoice \<rparr>])"

definition finish :: "nat \<Rightarrow> attempt list \<Rightarrow> attempt list" where
  "finish i ats = take i ats @ drop (Suc i) ats"

text \<open>
  \<open>InvoiceResolved i ok\<close>: the invoice request of attempt \<open>i\<close> resolved, and
  \<^verbatim>\<open>lnd.payInvoice\<close> is called, or it was rejected, and the \<^verbatim>\<open>catch\<close>
  block runs.  \<open>PayResolved i ok\<close>: the payment of attempt \<open>i\<close> resolved or was
  rejected.  \<open>SettleCalled\<close> is a call of \<^verbatim>\<open>attemptSettle\<close> from
  \<^verbatim>\<open>connect\<close> or \<^verbatim>\<open>disconnect\<close>.
\<close>

fun step :: "plugin \<Rightarrow> event \<Rightarrow> system \<Rightarrow> system" where
  "step master (PrepareResponse amount responsePacket) s =
     (case handlePrepareResponse master amount responsePacket (acct s) of
        (r, b, a') \<Rightarrow> \<lparr> acct = a', attempts = suspend b (attempts s) \<rparr>)"
| "step master (IncomingInvoice notified moneyHandler) s =
     (case handleIncomingInvoice master notified moneyHandler (acct s) of
        (r, n, a') \<Rightarrow> s\<lparr>acct := a'\<rparr>)"
| "step master (InvoiceRequest addInvoice) s =
     (case handleInvoiceRequest addInvoice (acct s) of
        (r, a') \<Rightarrow> s\<lparr>acct := a'\<rparr>)"
| "step master SettleCalled s =
     (case attemptSettle_begin master (acct s) of
        (r, a') \<Rightarrow> \<lparr> acct = a', attempts = suspend (started r) (attempts s) \<rparr>)"
| "step master (InvoiceResolved i ok) s =
     (if i < length (attempts s) \<and> att_phase (attempts s ! i) = AwaitingInvoice then
        if ok then s\<lparr>attempts := (attempts s)[i := (attempts s ! i)\<lparr>att_phase := Paying\<rparr>]\<rparr>
        else
          (case attemptSettle_revert master (att_budget (attempts s ! i)) (acct s) of
             (r, a') \<Rightarrow> \<lparr> acct = a', attempts = finish i (attempts s) \<rparr>)
      else s)"
| "step master (PayResolved i ok) s =
     (if i < length (attempts s) \<and> att_phase (attempts s ! i) = Paying then
        (case (if ok then attemptSettle_commit (att_budget (attempts s ! i)) (acct s)
               else attemptSettle_revert master (att_budget (attempts s ! i)) (acct s)) of
           (r, a') \<Rightarrow> \<lparr> acct = a', attempts = finish i (attempts s) \<rparr>)
      else s)"

definition run :: "plugin \<Rightarrow> event list \<Rightarrow> system \<Rightarrow> system" where
  "run master evs s = foldl (\<lambda>s' e. step master e s') s evs"

text \<open>The number of \<^verbatim>\<open>lnd.payInvoice\<close> calls that have not resolved yet.\<close>

definition outstanding_pays :: "system \<Rightarrow> nat" where
  "outstanding_pays s = length (filter (\<lambda>t. att_phase t = Paying) (attempts s))"

text \<open>Whether \<^verbatim>\<open>attemptSettle\<close> finds the balance below the threshold.\<close>

definition shouldSettle :: "plugin \<Rightarrow> account \<Rightarrow> bool" where
  "shouldSettle master a =
     (case settleThreshold (plugin_balance master) of
        None \<Rightarrow> False
      | Some threshold \<Rightarrow> gt threshold (balance a))"

section \<open>The route broadcaster\<close>

text \<open>
  \<^verbatim>\<open>RouteBroadcaster\<close> of the connector, in the version that keeps
  \<^verbatim>\<open>peerEpochs\<close>.  A route is given by the fields the broadcaster reads; the
  routing tables are not part of the broadcaster, so the routes they list and their
  current epoch are arguments.
\<close>

record route =
  source_ledger :: string
  destination_ledger :: string
  added_during_epoch :: int

record broadcaster =
  peers :: "string list"
  peerEpochs :: "string \<rightharpoonup> int"
  detectedDown :: "string list"

text \<open>The request \<^verbatim>\<open>_broadcastToLedger\<close> sends.\<close>

record broadcast_request =
  new_routes :: "route list"
  unreachable_through_me :: "string list"
  request_full_table :: bool

text \<open>
  \<^verbatim>\<open>this.peerEpochs[adjacentLedger] || -1\<close>: a missing entry and the epoch 0 are
  both falsy.
\<close>

definition lastEpoch :: "broadcaster \<Rightarrow> string \<Rightarrow> int" where
  "lastEpoch b adjacentLedger =
     (case peerEpochs b adjacentLedger of
        None \<Rightarrow> - 1
      | Some e \<Rightarrow> if e = 0 then - 1 else e)"

text \<open>\<^verbatim>\<open>_broadcastToLedger\<close> up to the call of \<^verbatim>\<open>sendRequest\<close>.\<close>

definition broadcastToLedger_send ::
  "broadcaster \<Rightarrow> string \<Rightarrow> route list \<Rightarrow> string list \<Rightarrow> bool \<Rightarrow> broadcast_request" where
  "broadcastToLedger_send b adjacentLedger routes unreachableLedgers requestFullTable =
     \<lparr> new_routes = filter (\<lambda>r. added_during_epoch r > lastEpoch b adjacentLedger) routes,
       unreachable_through_me = unreachableLedgers,
       request_full_table = requestFullTable \<rparr>"

text \<open>
  The \<^verbatim>\<open>then\<close> callback; \<open>currentEpoch\<close> is what \<^verbatim>\<open>_currentEpoch()\<close>
  returns when the callback runs.
\<close>

definition broadcastToLedger_then :: "int \<Rightarrow> string \<Rightarrow> broadcaster \<Rightarrow> broadcaster" where
  "broadcastToLedger_then currentEpoch adjacentLedger b =
     b\<lparr>peerEpochs := (peerEpochs b)(adjacentLedger \<mapsto> currentEpoch)\<rparr>"

text \<open>
  \<^verbatim>\<open>markLedgersUnreachable\<close>: \<^verbatim>\<open>detectedDown\<close> is a
  \<^verbatim>\<open>Set\<close>, which keeps its elements in the order they were first added.
\<close>

definition markLedgersUnreachable :: "string list \<Rightarrow> broadcaster \<Rightarrow> broadcaster" where
  "markLedgersUnreachable lostLedgerLinks b =
     b\<lparr>detectedDown :=
         foldl (\<lambda>down unreachableLedger.
                  if unreachableLedger \<in> set down then down else down @ [unreachableLedger])
               (detectedDown b) lostLedgerLinks\<rparr>"

text \<open>
  The \<^verbatim>\<open>catch\<close> callback; \<open>lostLedgerLinks\<close> is what
  \<^verbatim>\<open>invalidateConnector\<close> returns.
\<close>

definition broadcastToLedger_catch :: "string list \<Rightarrow> string \<Rightarrow> broadcaster \<Rightarrow> broadcaster" where
  "broadcastToLedger_catch lostLedgerLinks adjacentLedger b =
     (markLedgersUnreachable lostLedgerLinks b)
       \<lparr>peerEpochs := (peerEpochs b)(adjacentLedger \<mapsto> - 1)\<rparr>"

definition PEER_LEDGER_PREFIX :: string where
  "PEER_LEDGER_PREFIX = ''peer.''"

definition startsWith :: "string \<Rightarrow> string \<Rightarrow> bool" where
  "startsWith s p = (take (length p) s = p)"

text \<open>
  \<^verbatim>\<open>broadcast(requestFullTable)\<close> up to the calls of \<^verbatim>\<open>sendRequest\<close>;
  \<open>table\<close> is \<^verbatim>\<open>routingTables.toJSON(SIMPLIFY_POINTS)\<close>.  It returns the
  request sent to each adjacent ledger.
\<close>

definition broadcast_send ::
  "route list \<Rightarrow> bool \<Rightarrow> broadcaster \<Rightarrow> (string \<times> broadcast_request) list \<times> broadcaster" where
  "broadcast_send table requestFullTable b =
     (let routes = filter (\<lambda>r. \<not> startsWith (destination_ledger r) PEER_LEDGER_PREFIX) table;
          unreachableLedgers = detectedDown b
      in
      (map (\<lambda>adjacentLedger.
              (adjacentLedger,
               broadcastToLedger_send b adjacentLedger
                 (filter (\<lambda>r. source_ledger r = adjacentLedger) routes)
                 unreachableLedgers requestFullTable))
           (peers b),
       b\<lparr>detectedDown := []\<rparr>))"

text \<open>
  A run of the broadcaster together with the routing tables it reads.  The ghost field
  \<open>offered\<close> collects every route sent to a ledger in a request.  Between two
  callbacks of the broadcaster the routing tables may change (\<open>TablesChange\<close>): they
  belong to the route builder and to the handlers of incoming route updates.
\<close>

record routing =
  bc :: broadcaster
  table :: "route list"
  currentEpoch :: int
  offered :: "(string \<times> route) list"

datatype routing_event =
    Broadcast bool
  | Acknowledged string
  | Failed string "string list"
  | TablesChange "route list" int

fun routing_step :: "routing_event \<Rightarrow> routing \<Rightarrow> routing" where
  "routing_step (Broadcast requestFullTable) s =
     (case broadcast_send (table s) requestFullTable (bc s) of
        (requests, b') \<Rightarrow>
          s\<lparr>bc := b',
            offered := offered s @
              concat (map (\<lambda>(l, req). map (\<lambda>r. (l, r)) (new_routes req)) requests)\<rparr>)"
| "routing_step (Acknowledged adjacentLedger) s =
     s\<lparr>bc := broadcastToLedger_then (currentEpoch s) adjacentLedger (bc s)\<rparr>"
| "routing_step (Failed adjacentLedger lostLedgerLinks) s =
     s\<lparr>bc := broadcastToLedger_catch lostLedgerLinks adjacentLedger (bc s)\<rparr>"
| "routing_step (TablesChange table' epoch') s =
     s\<lparr>table := table', currentEpoch := epoch'\<rparr>"

definition routing_run :: "routing_event list \<Rightarrow> routing \<Rightarrow> routing" where
  "routing_run evs s = foldl (\<lambda>s' e. routing_step e s') s evs"

text \<open>
  The cursor invariant: every route of the tables that is broadcast to the ledger (its
  source ledger is the adjacent ledger and it is not a peer route) and was added during
  an epoch at or below the ledger's cursor has been offered to the ledger.
\<close>

definition cursor_covered :: "routing \<Rightarrow> string \<Rightarrow> bool" where
  "cursor_covered s adjacentLedger =
     (case peerEpochs (bc s) adjacentLedger of
        None \<Rightarrow> True
      | Some e \<Rightarrow>
          list_all (\<lambda>r. source_ledger r = adjacentLedger
                        \<and> \<not> startsWith (destination_ledger r) PEER_LEDGER_PREFIX
                        \<and> added_during_epoch r \<le> e
                      \<longrightarrow> (adjacentLedger, r) \<in> set (offered s))
                   (table s))"

section \<open>The store wrapper\<close>

text \<open>
  \<^verbatim>\<open>StoreWrapper\<close>: a synchronous cache in front of an asynchronous key-value
  store.  The values \<^verbatim>\<open>set\<close> takes are of the type
  \<^verbatim>\<open>string | object\<close>.  The type of objects is a parameter, and so are
  \<^verbatim>\<open>JSON.stringify\<close> and \<^verbatim>\<open>JSON.parse\<close>.  The constructor sets
  \<^verbatim>\<open>_store\<close> and nothing unsets it, so the tests \<^verbatim>\<open>if (this._store)\<close>
  always succeed.
\<close>

datatype 'o store_value = StringValue string | ObjectValue 'o

text \<open>
  What the cache holds for a key: a value of that type, or whatever else
  \<^verbatim>\<open>JSON.parse\<close> returned, which is of the type \<^verbatim>\<open>any\<close>: the text
  \<^verbatim>\<open>5\<close> parses to a number, which is neither a string nor an object (a text in
  quotes parses to a string, and \<^verbatim>\<open>null\<close> and an array are objects).  The cache
  holds \<^verbatim>\<open>undefined\<close> when a load found nothing (\<open>Some None\<close>: the cache
  has the key, its value is undefined).
\<close>

datatype 'o cached = Typed "'o store_value" | Other 'o

datatype store_write = Put string string | Del string

text \<open>
  \<^verbatim>\<open>_write\<close> is a chain of promises: each \<^verbatim>\<open>then\<close> adds a callback that
  runs when the one before it has resolved.  The model keeps the callbacks that have not
  run yet, in the order they were added, and whether a callback's store operation was
  rejected: the callbacks behind a rejected promise never run.
\<close>

record 'o wrapper =
  cache :: "string \<rightharpoonup> 'o cached option"
  pending :: "store_write list"
  rejected :: bool

definition new_wrapper :: "'o wrapper" where
  "new_wrapper = \<lparr> cache = Map.empty, pending = [], rejected = False \<rparr>"

text \<open>
  \<^verbatim>\<open>_load\<close> up to \<^verbatim>\<open>await this._store.get(key)\<close>: whether the store is read.
\<close>

definition load_begin :: "string \<Rightarrow> 'o wrapper \<Rightarrow> bool" where
  "load_begin key w = (cache w key = None)"

text \<open>
  \<^verbatim>\<open>_load\<close> after the read of the store resolved with \<open>value\<close> (\<open>None\<close> is
  \<^verbatim>\<open>undefined\<close>) or was rejected.
\<close>

definition load_resume ::
  "(string \<Rightarrow> 'o cached result) \<Rightarrow> string \<Rightarrow> bool \<Rightarrow> string option result \<Rightarrow> 'o wrapper
     \<Rightarrow> unit result \<times> 'o wrapper" where
  "load_resume JSON_parse key parse got w =
     (case got of
        Throw e \<Rightarrow> (Throw e, w)
      | Return value \<Rightarrow>
          if cache w key = None then
            (case value of
               None \<Rightarrow> (Return (), w\<lparr>cache := (cache w)(key \<mapsto> None)\<rparr>)
             | Some str \<Rightarrow>
                 if parse \<and> str \<noteq> [] then
                   (case JSON_parse str of
                      Throw e \<Rightarrow> (Throw e, w)
                    | Return parsed \<Rightarrow>
                        (Return (), w\<lparr>cache := (cache w)(key \<mapsto> Some parsed)\<rparr>))
                 else
                   (Return (), w\<lparr>cache := (cache w)(key \<mapsto> Some (Typed (StringValue str)))\<rparr>))
          else (Return (), w))"

definition unload :: "string \<Rightarrow> 'o wrapper \<Rightarrow> 'o wrapper" where
  "unload key w = (if cache w key \<noteq> None then w\<lparr>cache := (cache w)(key := None)\<rparr> else w)"

definition getString :: "string \<Rightarrow> 'o wrapper \<Rightarrow> string option result" where
  "getString key w =
     (case cache w key of
        None \<Rightarrow> Return None
      | Some None \<Rightarrow> Return None
      | Some (Some (Typed (StringValue str))) \<Rightarrow> Return (Some str)
      | Some (Some val) \<Rightarrow> Throw (Error ''StoreWrapper#getString: unexpected type''))"

definition getObject :: "string \<Rightarrow> 'o wrapper \<Rightarrow> 'o option result" where
  "getObject key w =
     (case cache w key of
        None \<Rightarrow> Return None
      | Some None \<Rightarrow> Return None
      | Some (Some (Typed (ObjectValue obj))) \<Rightarrow> Return (Some obj)
      | Some (Some val) \<Rightarrow> Throw (Error ''StoreWrapper#getObject: unexpected type''))"

definition set_value :: "('o \<Rightarrow> string) \<Rightarrow> string \<Rightarrow> 'o store_value \<Rightarrow> 'o wrapper \<Rightarrow> 'o wrapper" where
  "set_value JSON_stringify key value w =
     (let valueStr = (case value of ObjectValue obj \<Rightarrow> JSON_stringify obj | StringValue str \<Rightarrow> str)
      in w\<lparr>cache := (cache w)(key \<mapsto> Some (Typed value)),
           pending := pending w @ [Put key valueStr]\<rparr>)"

definition delete_key :: "string \<Rightarrow> 'o wrapper \<Rightarrow> 'o wrapper" where
  "delete_key key w = w\<lparr>cache := (cache w)(key := None), pending := pending w @ [Del key]\<rparr>"

definition setCache :: "string \<Rightarrow> string \<Rightarrow> 'o wrapper \<Rightarrow> 'o wrapper" where
  "setCache key str w = w\<lparr>cache := (cache w)(key \<mapsto> Some (Typed (StringValue str)))\<rparr>"

text \<open>The backing store, as \<^verbatim>\<open>MemoryStore\<close> keeps it, and one write applied to it.\<close>

fun apply_write :: "(string \<rightharpoonup> string) \<Rightarrow> store_write \<Rightarrow> (string \<rightharpoonup> string)" where
  "apply_write st (Put k v) = st(k \<mapsto> v)"
| "apply_write st (Del k) = st(k := None)"

text \<open>
  The wrapper with its backing store.  The ghost fields \<open>issued\<close> and
  \<open>applied\<close> list the writes in the order \<^verbatim>\<open>set\<close> and \<^verbatim>\<open>delete\<close> were
  called and in the order they reached the store.
\<close>

record 'o stored =
  wrapped :: "'o wrapper"
  backing :: "string \<rightharpoonup> string"
  issued :: "store_write list"
  applied :: "store_write list"

text \<open>
  \<open>WriteRuns ok\<close> is the next callback of the write chain: it is skipped when the
  chain is rejected; otherwise it calls the store, which applies the write (\<open>ok\<close>) or
  rejects it.  \<open>LoadResolves\<close> is the second part of a load, with whatever the read
  of the store gave.
\<close>

datatype 'o store_event =
    Set string "'o store_value"
  | Delete string
  | SetCache string string
  | Unload string
  | LoadResolves string bool "string option result"
  | WriteRuns bool

fun store_step ::
  "('o \<Rightarrow> string) \<Rightarrow> (string \<Rightarrow> 'o cached result) \<Rightarrow> 'o store_event \<Rightarrow> 'o stored \<Rightarrow> 'o stored" where
  "store_step js jp (Set key value) s =
     (let w = set_value js key value (wrapped s)
      in s\<lparr>wrapped := w, issued := issued s @ [last (pending w)]\<rparr>)"
| "store_step js jp (Delete key) s =
     (let w = delete_key key (wrapped s)
      in s\<lparr>wrapped := w, issued := issued s @ [last (pending w)]\<rparr>)"
| "store_step js jp (SetCache key str) s = s\<lparr>wrapped := setCache key str (wrapped s)\<rparr>"
| "store_step js jp (Unload key) s = s\<lparr>wrapped := unload key (wrapped s)\<rparr>"
| "store_step js jp (LoadResolves key parse got) s =
     s\<lparr>wrapped := snd (load_resume jp key parse got (wrapped s))\<rparr>"
| "store_step js jp (WriteRuns ok) s =
     (case pending (wrapped s) of
        [] \<Rightarrow> s
      | wr # rest \<Rightarrow>
          if rejected (wrapped s) then s\<lparr>wrapped := (wrapped s)\<lparr>pending := rest\<rparr>\<rparr>
          else if ok then
            s\<lparr>wrapped := (wrapped s)\<lparr>pending := rest\<rparr>,
              backing := apply_write (backing s) wr,
              applied := applied s @ [wr]\<rparr>
          else s\<lparr>wrapped := (wrapped s)\<lparr>pending := rest, rejected := True\<rparr>\<rparr>)"

definition store_run ::
  "('o \<Rightarrow> string) \<Rightarrow> (string \<Rightarrow> 'o cached result) \<Rightarrow> 'o store_event list \<Rightarrow> 'o stored \<Rightarrow> 'o stored" where
  "store_run js jp evs s = foldl (\<lambda>s' e. store_step js jp e s') s evs"

definition new_stored :: "(string \<rightharpoonup> string) \<Rightarrow> 'o stored" where
  "new_stored st = \<lparr> wrapped = new_wrapper, backing = st, issued = [], applied = [] \<rparr>"

text \<open>
  What the order of the writes means for the content of the store: after a list of
  writes, applied in that order, a key has the value its last write gave it, or none when
  that was a delete, or its old value when no write was to that key.
\<close>

fun key_of :: "store_write \<Rightarrow> string" where
  "key_of (Put k v) = k"
| "key_of (Del k) = k"

definition last_write :: "string \<Rightarrow> store_write list \<Rightarrow> store_write option" where
  "last_write key ws = find (\<lambda>w. key_of w = key) (rev ws)"

definition value_after :: "string \<Rightarrow> store_write list \<Rightarrow> string option \<Rightarrow> string option" where
  "value_after key ws old =
     (case last_write key ws of
        None \<Rightarrow> old
      | Some (Put k v) \<Rightarrow> Some v
      | Some (Del k) \<Rightarrow> None)"

section \<open>Example configurations\<close>

text \<open>No option of the examples is a string, so how strings are read does not matter.\<close>

definition no_strings :: "string \<Rightarrow> BigNumber" where
  "no_strings str = NaN"

text \<open>
  A prefunding client: it settles up to 10 as soon as the balance is below 5, and the
  balance is to stay between 5 and 10.
\<close>

definition prefunding_opts :: plugin_opts where
  "prefunding_opts =
     \<lparr> opt_role = Some client,
       opt_lndIdentityPubkey = Some ''02ab'',
       opt_lndHost = Some ''localhost'',
       opt_settleOnConnect = None,
       opt_maxPacketAmount = None,
       opt_balance = Some \<lparr> opt_minimum = Some (JsNumber (BN 5)),
                            opt_maximum = Some (JsNumber (BN 10)),
                            opt_settleTo = Some (JsNumber (BN 10)),
                            opt_settleThreshold = Some (JsNumber (BN 5)) \<rparr> \<rparr>"

definition prefunding_plugin :: plugin where
  "prefunding_plugin =
     \<lparr> plugin_role = client, maxPacketAmount = PosInf, settleOnConnect = True,
       plugin_balance = \<lparr> minimum = BN 5, maximum = BN 10, settleTo = BN 10,
                          settleThreshold = Some (BN 5) \<rparr> \<rparr>"

text \<open>An account of the prefunding client with balance 7.\<close>

definition funded_account :: account where
  "funded_account =
     \<lparr> balance = BN 7, payoutAmount = PosInf, invoices = {}, lndIdentityPubkey = None \<rparr>"

text \<open>
  A client that settles after the fact: below a balance of -100 it pays the balance back
  up to 0, limited by what it has sent.  The account has had packets of 150 fulfilled.
\<close>

definition postpaid_plugin :: plugin where
  "postpaid_plugin =
     \<lparr> plugin_role = client, maxPacketAmount = PosInf, settleOnConnect = True,
       plugin_balance = \<lparr> minimum = NegInf, maximum = PosInf, settleTo = BN 0,
                          settleThreshold = Some (BN (- 100)) \<rparr> \<rparr>"

definition owing_account :: account where
  "owing_account =
     \<lparr> balance = BN (- 150), payoutAmount = BN 150, invoices = {}, lndIdentityPubkey = None \<rparr>"

text \<open>A plugin's new account with no settlement attempt in flight.\<close>

definition new_system :: "plugin \<Rightarrow> system" where
  "new_system master = \<lparr> acct = new_account master, attempts = [] \<rparr>"

text \<open>
  A plugin that only receives: no settle threshold, and a balance kept between -100 and
  100, with packets of at most 50.
\<close>

definition bounded_plugin :: plugin where
  "bounded_plugin =
     \<lparr> plugin_role = server, maxPacketAmount = BN 50, settleOnConnect = False,
       plugin_balance = \<lparr> minimum = BN (- 100), maximum = BN 100, settleTo = BN 0,
                          settleThreshold = None \<rparr> \<rparr>"

text \<open>The notification that the invoice \<^verbatim>\<open>lnbc1\<close> was paid with 100.\<close>

definition paid_invoice :: invoice where
  "paid_invoice = \<lparr> settled = True, payment_request = ''lnbc1'', amt_paid_sat = BN 100 \<rparr>"

text \<open>Options whose settle threshold is the number 0, above their \<^verbatim>\<open>settleTo\<close> of -5.\<close>

definition zero_threshold_opts :: plugin_opts where
  "zero_threshold_opts =
     \<lparr> opt_role = Some client,
       opt_lndIdentityPubkey = Some ''02ab'',
       opt_lndHost = Some ''localhost'',
       opt_settleOnConnect = None,
       opt_maxPacketAmount = None,
       opt_balance = Some \<lparr> opt_minimum = Some (JsNumber (BN (- 10))),
                            opt_maximum = Some (JsNumber (BN 10)),
                            opt_settleTo = Some (JsNumber (BN (- 5))),
                            opt_settleThreshold = Some (JsNumber (BN 0)) \<rparr> \<rparr>"

text \<open>
  Two routes from the ledger \<^verbatim>\<open>usd.\<close>, added during the epochs 1 and 2, and a
  broadcaster with that ledger as its only peer, before its first broadcast; the tables
  hold the first route and are at epoch 1.
\<close>

definition usd_eur :: route where
  "usd_eur = \<lparr> source_ledger = ''usd.'', destination_ledger = ''eur.'', added_during_epoch = 1 \<rparr>"

definition usd_jpy :: route where
  "usd_jpy = \<lparr> source_ledger = ''usd.'', destination_ledger = ''jpy.'', added_during_epoch = 2 \<rparr>"

definition new_routing :: routing where
  "new_routing =
     \<lparr> bc = \<lparr> peers = [''usd.''], peerEpochs = Map.empty, detectedDown = [] \<rparr>,
       table = [usd_eur],
       currentEpoch = 1,
       offered = [] \<rparr>"

text \<open>
  The order of the writes: what reached the store is a prefix of what was issued, the
  rest is what is still pending unless the chain was rejected, and the store holds what
  the applied writes make of its first content \<open>st\<close>.
\<close>

definition write_order :: "(string \<rightharpoonup> string) \<Rightarrow> 'o stored \<Rightarrow> bool" where
  "write_order st s =
     ((if rejected (wrapped s) then \<exists>rest. issued s = applied s @ rest
       else issued s = applied s @ pending (wrapped s))
      \<and> backing s = foldl apply_write st (applied s))"

text \<open>
  A codec for packets without data and without dates or amounts to convert: the empty
  string is the base64 text of the empty buffer.
\<close>

definition plain_codec :: "unit codec" where
  "plain_codec =
     \<lparr> fromBase64 = (\<lambda>str. []),
       bufferToBase64url = (\<lambda>buffer. []),
       dateToGeneralizedTime = (\<lambda>date. []),
       generalizedTimeToDate = (\<lambda>str. Return ()),
       Long_fromString = (\<lambda>str. 0),
       Long_toString = (\<lambda>n. ''0''),
       stringToTwoNumbers = (\<lambda>str. (0, 0)),
       twoNumbersToString = (\<lambda>p. ''0'') \<rparr>"

text \<open>A store wrapper whose objects are all the empty object.\<close>

definition stringly :: "unit \<Rightarrow> string" where
  "stringly obj = ''{}''"

definition unparsed :: "string \<Rightarrow> unit cached result" where
  "unparsed str = Return (Typed (ObjectValue ()))"

text \<open>
  The store rejects the write of \<^verbatim>\<open>a\<close>; \<^verbatim>\<open>b\<close> is set afterwards, and
  the two callbacks that follow are those of the two writes.
\<close>

definition rejected_put :: "unit store_event list" where
  "rejected_put =
     [Set ''a'' (StringValue ''1''), WriteRuns False, Set ''b'' (StringValue ''2''),
      WriteRuns True, WriteRuns True]"

text \<open>
  A key is set, deleted and set again, and the callback of the first write has run.
\<close>

definition set_again :: "unit store_event list" where
  "set_again =
     [Set ''k'' (StringValue ''one''), Delete ''k'', Set ''k'' (StringValue ''two''),
      WriteRuns True]"

text \<open>The receive-only plugin the constructor builds from these options.\<close>

definition zero_threshold_plugin :: plugin where
  "zero_threshold_plugin =
     \<lparr> plugin_role = client, maxPacketAmount = PosInf, settleOnConnect = True,
       plugin_balance = \<lparr> minimum = BN (- 10), maximum = BN 10, settleTo = BN (- 5),
                          settleThreshold = None \<rparr> \<rparr>"

section \<open>Properties\<close>

subsection \<open>Comparing and adding BigNumber values\<close>

lemmas bn_defs = gt_def lte_def gte_def eq_bn_def minus_bn_def isZero_def minimum_of_def

lemma lt_absorb [simp]:
  "lt x NaN = False" "lt x NegInf = False" "lt PosInf x = False"
  by (cases x; simp)+

lemma lt_irrefl_bn [simp]: "\<not> lt x x"
  by (cases x; simp)

lemma lte_BN [simp]: "lte (BN a) (BN b) = (a \<le> b)"
  by (auto simp: lte_def eq_bn_def)

lemma gte_BN [simp]: "gte (BN a) (BN b) = (b \<le> a)"
  by (auto simp: gte_def gt_def eq_bn_def)

lemma gt_BN [simp]: "gt (BN a) (BN b) = (b < a)"
  by (simp add: gt_def)

lemma lte_NaN [simp]: "lte NaN x = False" "lte x NaN = False"
  by (cases x; simp add: lte_def eq_bn_def)+

lemma lte_not_gt: "b \<noteq> NaN \<Longrightarrow> a \<noteq> NaN \<Longrightarrow> lte a b = (\<not> gt a b)"
  by (cases a; cases b; auto simp: lte_def gt_def eq_bn_def)

lemma plus_BN_not_NaN: "b \<noteq> NaN \<Longrightarrow> plus_bn b (BN d) \<noteq> NaN"
  by (cases b; simp)

lemma plus_BN_zero [simp]: "plus_bn b (BN 0) = b"
  by (cases b; simp)

lemma minus_BN_zero [simp]: "minus_bn b (BN 0) = b"
  by (cases b; simp add: minus_bn_def)

lemma lte_plus_mono: "lte m b \<Longrightarrow> 0 \<le> d \<Longrightarrow> lte m (plus_bn b (BN d))"
  by (cases m; cases b; auto simp: lte_def eq_bn_def)

lemma lte_minus_mono: "lte b m \<Longrightarrow> 0 \<le> d \<Longrightarrow> lte (minus_bn b (BN d)) m"
  by (cases m; cases b; auto simp: lte_def eq_bn_def minus_bn_def)

lemma plus_not_lt: "\<not> lt amount (BN 0) \<Longrightarrow> \<not> lt (plus_bn p amount) p"
  by (cases p; cases amount; simp)

subsection \<open>The two writers of the balance\<close>

lemma addBalance_within_bounds:
  assumes "within_bounds master a" and "0 \<le> d"
  shows "addBalance master (BN d) a =
     (if lte (plus_bn (balance a) (BN d)) (maximum (plugin_balance master))
      then (Return (), a\<lparr>balance := plus_bn (balance a) (BN d)\<rparr>)
      else (Throw (Error ''proposed balance exceeds maximum''), a))"
proof -
  from assms(1) have nn: "balance a \<noteq> NaN" "maximum (plugin_balance master) \<noteq> NaN"
    and le: "lte (balance a) (maximum (plugin_balance master))"
    by (auto simp: within_bounds_def)
  show ?thesis
  proof (cases "d = 0")
    case True
    with le show ?thesis by (simp add: addBalance_def isZero_def)
  next
    case False
    with assms(2) have "\<not> lt (BN d) (BN 0)" "\<not> isZero (BN d)"
      by (simp_all add: isZero_def)
    moreover have "plus_bn (balance a) (BN d) \<noteq> NaN"
      using nn by (simp add: plus_BN_not_NaN)
    ultimately show ?thesis using nn
      by (simp add: addBalance_def Let_def lte_not_gt)
  qed
qed

lemma subBalance_within_bounds:
  assumes "within_bounds master a" and "0 \<le> d"
  shows "subBalance master (BN d) a =
     (if lte (minimum (plugin_balance master)) (minus_bn (balance a) (BN d))
      then (Return (), a\<lparr>balance := minus_bn (balance a) (BN d)\<rparr>)
      else (Throw (Error ''proposed balance is below the minimum''), a))"
proof -
  from assms(1) have nn: "balance a \<noteq> NaN" "minimum (plugin_balance master) \<noteq> NaN"
    and le: "lte (minimum (plugin_balance master)) (balance a)"
    by (auto simp: within_bounds_def)
  show ?thesis
  proof (cases "d = 0")
    case True
    with le show ?thesis by (simp add: subBalance_def isZero_def)
  next
    case False
    with assms(2) have "\<not> lt (BN d) (BN 0)" "\<not> isZero (BN d)"
      by (simp_all add: isZero_def)
    moreover have "minus_bn (balance a) (BN d) \<noteq> NaN"
      using nn by (simp add: plus_BN_not_NaN minus_bn_def)
    ultimately show ?thesis using nn
      by (simp add: subBalance_def Let_def lte_not_gt gt_def)
  qed
qed

lemma addBalance_keeps_bounds:
  assumes "within_bounds master a" and "0 \<le> d"
  shows "within_bounds master (snd (addBalance master (BN d) a))"
  using assms by (auto simp: addBalance_within_bounds within_bounds_def lte_plus_mono)

lemma subBalance_keeps_bounds:
  assumes "within_bounds master a" and "0 \<le> d"
  shows "within_bounds master (snd (subBalance master (BN d) a))"
  using assms by (auto simp: subBalance_within_bounds within_bounds_def lte_minus_mono)

lemma balance_calls_keep_bounds:
  assumes "within_bounds master a" and "\<forall>c \<in> set calls. 0 \<le> call_amount c"
  shows "within_bounds master (balance_calls master calls a)"
  using assms(2)
proof (induction calls rule: rev_induct)
  case Nil
  then show ?case using assms(1) by (simp add: balance_calls_def)
next
  case (snoc c calls)
  then have wb: "within_bounds master (balance_calls master calls a)"
    and c: "0 \<le> call_amount c"
    by simp_all
  show ?case
  proof (cases c)
    case (AddBalance d)
    with wb c show ?thesis
      by (simp add: balance_calls_def addBalance_keeps_bounds)
  next
    case (SubBalance d)
    with wb c show ?thesis
      by (simp add: balance_calls_def subBalance_keeps_bounds)
  qed
qed

lemma addBalance_payout: "addBalance master amount a = (r, a') \<Longrightarrow> payoutAmount a' = payoutAmount a"
  by (auto simp: addBalance_def Let_def split: if_splits)

lemma subBalance_payout: "subBalance master amount a = (r, a') \<Longrightarrow> payoutAmount a' = payoutAmount a"
  by (auto simp: subBalance_def Let_def split: if_splits)

lemma subBalance_Return_amount:
  "subBalance master amount a = (Return u, a') \<Longrightarrow> \<not> lt amount (BN 0)"
  by (auto simp: subBalance_def Let_def isZero_def split: if_splits)

lemma addBalance_Return_amount:
  "addBalance master amount a = (Return u, a') \<Longrightarrow> \<not> lt amount (BN 0)"
  by (auto simp: addBalance_def Let_def isZero_def split: if_splits)

subsection \<open>The writers of the payout amount\<close>

lemma attemptSettle_begin_payout:
  "attemptSettle_begin master a = (r, a') \<Longrightarrow> payoutAmount a' = payoutAmount a"
  by (auto simp: attemptSettle_begin_def Let_def
           split: option.splits prod.splits result.splits if_splits dest: addBalance_payout)

lemma attemptSettle_begin_budget:
  "attemptSettle_begin master a = (Return (Some b), a') \<Longrightarrow> \<not> lt b (BN 0)"
  by (auto simp: attemptSettle_begin_def Let_def
           split: option.splits prod.splits result.splits if_splits
           dest: addBalance_Return_amount)

lemma attemptSettle_payout:
  "\<not> lt (payoutAmount (snd (snd (attemptSettle master outcome a)))) (payoutAmount a)"
proof (cases "attemptSettle_begin master a")
  case (Pair r a1)
  have p1: "payoutAmount a1 = payoutAmount a"
    using Pair by (rule attemptSettle_begin_payout)
  show ?thesis
  proof (cases r)
    case (Throw e)
    with Pair p1 show ?thesis by (simp add: attemptSettle_def)
  next
    case (Return ob)
    show ?thesis
    proof (cases ob)
      case None
      with Pair Return p1 show ?thesis by (simp add: attemptSettle_def)
    next
      case (Some b)
      with Pair Return have "\<not> lt b (BN 0)"
        using attemptSettle_begin_budget by simp
      then have "\<not> lt (plus_bn (payoutAmount a) b) (payoutAmount a)"
        by (rule plus_not_lt)
      with Pair Return Some p1 show ?thesis
        by (cases outcome)
           (auto simp: attemptSettle_def attemptSettle_revert_def attemptSettle_commit_def
                 split: prod.splits dest!: subBalance_payout)
    qed
  qed
qed

lemma handlePrepareResponse_payout:
  "\<not> lt (payoutAmount (snd (snd (handlePrepareResponse master amount resp a)))) (payoutAmount a)"
proof (cases "resp = FulfillPacket")
  case False
  then show ?thesis
    by (auto simp: handlePrepareResponse_def split: prod.splits
             dest!: attemptSettle_begin_payout)
next
  case True
  show ?thesis
  proof (cases "subBalance master amount a")
    case (Pair r a1)
    have p1: "payoutAmount a1 = payoutAmount a"
      using Pair by (rule subBalance_payout)
    show ?thesis
    proof (cases r)
      case (Throw e)
      with Pair p1 True show ?thesis
        by (simp add: handlePrepareResponse_def)
    next
      case (Return u)
      with Pair have "\<not> lt amount (BN 0)"
        using subBalance_Return_amount by simp
      then have "\<not> lt (plus_bn (payoutAmount a) amount) (payoutAmount a)"
        by (rule plus_not_lt)
      with Pair Return p1 True show ?thesis
        by (auto simp: handlePrepareResponse_def Let_def split: prod.splits
                 dest!: attemptSettle_begin_payout)
    qed
  qed
qed

subsection \<open>The balance invariant\<close>

text \<open>
  C1, as stated, fails.  Nothing places the balance of a new account within the bounds:
  the constructor accepts the prefunding configuration, whose minimum is 5, and a new
  account starts at 0.  After a PREPARE of 3 that is fulfilled the credit is committed
  and the balance, 3, is below the minimum.
\<close>

theorem C1_new_account_outside_bounds:
  "LightningPlugin no_strings prefunding_opts = Return prefunding_plugin
   \<and> handlePrepare prefunding_plugin (BN 3) (Some (Responds [TYPE_ILP_FULFILL]))
       (new_account prefunding_plugin)
     = \<lparr> reply = IlpResponse [TYPE_ILP_FULFILL], forwarded = True,
         account_after = (new_account prefunding_plugin)\<lparr>balance := BN 3\<rparr> \<rparr>
   \<and> \<not> within_bounds prefunding_plugin ((new_account prefunding_plugin)\<lparr>balance := BN 3\<rparr>)"
  by (simp add: LightningPlugin_def prefunding_opts_def prefunding_plugin_def orDefault_def
        no_strings_def handlePrepare_def new_account_def addBalance_def within_bounds_def
        bn_defs Let_def)

text \<open>
  C1, amended: for an account whose balance is within the bounds, and an integer amount
  \<open>d \<ge> 0\<close>: \<^verbatim>\<open>addBalance\<close> adds \<open>d\<close> to the balance exactly when the sum is at most
  the maximum and otherwise throws and leaves the account as it was;
  \<^verbatim>\<open>subBalance\<close> subtracts \<open>d\<close> exactly when the difference is at least the
  minimum and otherwise throws and leaves the account as it was; after either call the
  balance is within the bounds again and the payout amount is what it was; the balance
  is within the bounds after every sequence of such calls; and neither of the two
  functions that write the payout amount, \<^verbatim>\<open>attemptSettle\<close> and
  \<^verbatim>\<open>handlePrepareResponse\<close>, makes it smaller.
\<close>

theorem C1_balance_within_bounds:
  assumes "within_bounds master a" and "0 \<le> d"
      and "\<forall>c \<in> set calls. 0 \<le> call_amount c"
  shows "addBalance master (BN d) a =
           (if lte (plus_bn (balance a) (BN d)) (maximum (plugin_balance master))
            then (Return (), a\<lparr>balance := plus_bn (balance a) (BN d)\<rparr>)
            else (Throw (Error ''proposed balance exceeds maximum''), a))
         \<and> subBalance master (BN d) a =
           (if lte (minimum (plugin_balance master)) (minus_bn (balance a) (BN d))
            then (Return (), a\<lparr>balance := minus_bn (balance a) (BN d)\<rparr>)
            else (Throw (Error ''proposed balance is below the minimum''), a))
         \<and> within_bounds master (snd (addBalance master (BN d) a))
         \<and> within_bounds master (snd (subBalance master (BN d) a))
         \<and> within_bounds master (balance_calls master calls a)
         \<and> payoutAmount (snd (addBalance master (BN d) a)) = payoutAmount a
         \<and> payoutAmount (snd (subBalance master (BN d) a)) = payoutAmount a
         \<and> \<not> lt (payoutAmount (snd (snd (attemptSettle master outcome a)))) (payoutAmount a)
         \<and> \<not> lt (payoutAmount (snd (snd (handlePrepareResponse master amount resp a))))
                 (payoutAmount a)"
proof -
  have "payoutAmount (snd (addBalance master (BN d) a)) = payoutAmount a"
    by (rule addBalance_payout [of master "BN d" a "fst (addBalance master (BN d) a)"]) simp
  moreover have "payoutAmount (snd (subBalance master (BN d) a)) = payoutAmount a"
    by (rule subBalance_payout [of master "BN d" a "fst (subBalance master (BN d) a)"]) simp
  ultimately show ?thesis
    using addBalance_within_bounds [OF assms(1,2)] subBalance_within_bounds [OF assms(1,2)]
      addBalance_keeps_bounds [OF assms(1,2)] subBalance_keeps_bounds [OF assms(1,2)]
      balance_calls_keep_bounds [OF assms(1,3)]
      attemptSettle_payout [of master outcome a]
      handlePrepareResponse_payout [of master amount resp a]
    by blast
qed

theorem C1_balance_within_bounds_witness:
  "within_bounds prefunding_plugin funded_account \<and> (0::int) \<le> 2
   \<and> 0 \<le> call_amount (AddBalance 2) \<and> 0 \<le> call_amount (SubBalance 4)
   \<and> within_bounds prefunding_plugin
        (balance_calls prefunding_plugin [AddBalance 2, SubBalance 4] funded_account)
   \<and> addBalance prefunding_plugin (BN 2) funded_account
       = (Return (), funded_account\<lparr>balance := BN 9\<rparr>)
   \<and> subBalance prefunding_plugin (BN 2) funded_account
       = (Return (), funded_account\<lparr>balance := BN 5\<rparr>)
   \<and> addBalance prefunding_plugin (BN 4) funded_account
       = (Throw (Error ''proposed balance exceeds maximum''), funded_account)"
proof -
  have h: "within_bounds prefunding_plugin funded_account"
    by (simp add: within_bounds_def prefunding_plugin_def funded_account_def)
  have "plus_bn (balance funded_account) (BN 2) = BN 9"
       "minus_bn (balance funded_account) (BN 2) = BN 5"
       "plus_bn (balance funded_account) (BN 4) = BN 11"
       "maximum (plugin_balance prefunding_plugin) = BN 10"
       "minimum (plugin_balance prefunding_plugin) = BN 5"
    by (simp_all add: funded_account_def prefunding_plugin_def minus_bn_def)
  moreover have c: "\<forall>c \<in> set [AddBalance 2, SubBalance 4]. 0 \<le> call_amount c"
    by simp
  moreover have "(0::int) \<le> 2" "(0::int) \<le> 4"
    by simp_all
  ultimately show ?thesis
    using h
      C1_balance_within_bounds [OF h _ c, of 2 InvoiceFailed "BN 0" OtherPacket]
      C1_balance_within_bounds [OF h _ c, of 4 InvoiceFailed "BN 0" OtherPacket]
    by simp
qed

subsection \<open>One settlement attempt\<close>

lemma minimum_of_BN_le:
  "minimum_of x p = BN k \<Longrightarrow> 0 < k \<Longrightarrow> \<not> lte x (BN 0) \<and> x \<noteq> NaN \<and> lte (BN k) x"
  by (cases x; cases p; auto simp: minimum_of_def lte_def eq_bn_def split: if_splits)

lemma attemptSettle_begin_no_budget:
  "lte (minimum_of (minus_bn (settleTo (plugin_balance master)) (balance a)) (payoutAmount a)) (BN 0)
   \<Longrightarrow> attemptSettle_begin master a = (Return None, a)"
  by (auto simp: attemptSettle_begin_def Let_def split: option.splits)

lemma attemptSettle_begin_budget_finite:
  assumes "settleThreshold (plugin_balance master) = Some threshold"
      and "gt threshold (balance a)"
      and "gte (maximum (plugin_balance master)) (settleTo (plugin_balance master))"
      and "balance a = BN b"
      and "minimum_of (minus_bn (settleTo (plugin_balance master)) (balance a)) (payoutAmount a) = BN k"
      and "0 < k"
  shows "attemptSettle_begin master a = (Return (Some (BN k)), a\<lparr>balance := BN (b + k)\<rparr>)"
proof -
  let ?x = "minus_bn (settleTo (plugin_balance master)) (balance a)"
  from minimum_of_BN_le [OF assms(5,6)]
  have x: "\<not> lte ?x (BN 0)" "lte (BN k) ?x" by simp_all
  have nz: "\<not> isZero (BN k)" "\<not> lt (BN k) (BN 0)" "\<not> lte (BN k) (BN 0)"
    using assms(6) by (simp_all add: isZero_def)
  have "\<not> gt (BN (b + k)) (maximum (plugin_balance master))"
    using x(2) assms(3,4)
    by (cases "settleTo (plugin_balance master)"; cases "maximum (plugin_balance master)")
       (auto simp: bn_defs)
  then have "addBalance master (BN k) a = (Return (), a\<lparr>balance := BN (b + k)\<rparr>)"
    using nz assms(4) by (simp add: addBalance_def Let_def)
  then show ?thesis
    using assms(1,2,5) x(1) nz(3)
    by (simp add: attemptSettle_begin_def Let_def)
qed

lemma attemptSettle_revert_restores:
  assumes "balance a = BN b" and "lte (minimum (plugin_balance master)) (balance a)" and "0 < k"
  shows "attemptSettle_revert master (BN k) (a\<lparr>balance := BN (b + k)\<rparr>) = (Return (), a)"
proof -
  have "\<not> lt (BN b) (minimum (plugin_balance master))"
    using assms(1,2) by (cases "minimum (plugin_balance master)"; auto simp: bn_defs)
  moreover have "a\<lparr>balance := BN b\<rparr> = a" using assms(1) by (cases a) simp
  ultimately show ?thesis
    using assms(3) by (simp add: attemptSettle_revert_def subBalance_def Let_def isZero_def minus_bn_def)
qed

text \<open>
  One attempt with nothing else running between its credit and the outcome of the
  payment, on an account with an integer balance that is below the settle threshold and
  not below the minimum, under a configuration with \<open>settleTo \<le> maximum\<close>.  The
  budget is \<open>min (settleTo - balance) payoutAmount\<close>.  A budget of at most 0 pays
  nothing and leaves the account as it was.  With an integer budget \<open>k > 0\<close>, a
  successful payment pays \<open>k\<close> and leaves the balance and the payout amount both
  higher by \<open>k\<close>, and here the \<^verbatim>\<open>catch\<close> block does take the credit back.
\<close>

lemma attemptSettle_uninterrupted:
  assumes "settleThreshold (plugin_balance master) = Some threshold"
      and "gt threshold (balance a)"
      and "gte (maximum (plugin_balance master)) (settleTo (plugin_balance master))"
      and "balance a = BN b"
      and "lte (minimum (plugin_balance master)) (balance a)"
  shows "(lte (minimum_of (minus_bn (settleTo (plugin_balance master)) (balance a))
                  (payoutAmount a)) (BN 0)
          \<longrightarrow> attemptSettle master outcome a = (Return (), None, a))
       \<and> (minimum_of (minus_bn (settleTo (plugin_balance master)) (balance a))
             (payoutAmount a) = BN k \<and> 0 < k
          \<longrightarrow> attemptSettle master PaymentSucceeded a
                = (Return (), Some (BN k),
                   a\<lparr>balance := BN (b + k),
                     payoutAmount := plus_bn (payoutAmount a) (BN k)\<rparr>)
              \<and> attemptSettle master PaymentFailed a = (Return (), Some (BN k), a)
              \<and> attemptSettle master InvoiceFailed a = (Return (), None, a))"
proof (intro conjI impI)
  assume "lte (minimum_of (minus_bn (settleTo (plugin_balance master)) (balance a))
                  (payoutAmount a)) (BN 0)"
  then show "attemptSettle master outcome a = (Return (), None, a)"
    by (simp add: attemptSettle_def attemptSettle_begin_no_budget)
next
  assume k: "minimum_of (minus_bn (settleTo (plugin_balance master)) (balance a))
             (payoutAmount a) = BN k \<and> 0 < k"
  then have beg: "attemptSettle_begin master a = (Return (Some (BN k)), a\<lparr>balance := BN (b + k)\<rparr>)"
    using attemptSettle_begin_budget_finite [OF assms(1-4)] by blast
  have rev: "attemptSettle_revert master (BN k) (a\<lparr>balance := BN (b + k)\<rparr>) = (Return (), a)"
    using attemptSettle_revert_restores [OF assms(4,5)] k by blast
  show "attemptSettle master PaymentSucceeded a
                = (Return (), Some (BN k),
                   a\<lparr>balance := BN (b + k),
                     payoutAmount := plus_bn (payoutAmount a) (BN k)\<rparr>)"
    by (simp add: attemptSettle_def beg attemptSettle_commit_def)
  show "attemptSettle master PaymentFailed a = (Return (), Some (BN k), a)"
    by (simp add: attemptSettle_def beg rev)
  show "attemptSettle master InvoiceFailed a = (Return (), None, a)"
    by (simp add: attemptSettle_def beg rev)
qed

text \<open>
  C2 at the failing input: the \<^verbatim>\<open>catch\<close> block is to take the optimistic credit
  back (\<^verbatim>\<open>After this point, any uncaught or thrown error should revert balance\<close>),
  and it does so with \<^verbatim>\<open>subBalance\<close>, which refuses a balance below the
  minimum.  The constructor accepts the options of the prefunding client (minimum 5,
  settle threshold 5, \<^verbatim>\<open>settleTo\<close> 10, maximum 10).  Its new account has balance
  0, below the threshold 5; the budget is 10 and the credit brings the balance to 10.
  When the payment fails, \<^verbatim>\<open>subBalance(10)\<close> would bring the balance back to 0,
  below the minimum 5: it throws, \<^verbatim>\<open>attemptSettle\<close> is rejected with that error,
  and the balance stays at 10, although nothing was paid.  The same holds when the attempt
  is run as the events of the account: the call, the invoice, the failed payment.
\<close>

theorem C2_failed_payment_not_reverted:
  "LightningPlugin no_strings prefunding_opts = Return prefunding_plugin
   \<and> settleThreshold (plugin_balance prefunding_plugin) = Some (BN 5)
   \<and> gt (BN 5) (balance (new_account prefunding_plugin))
   \<and> balance (new_account prefunding_plugin) = BN 0
   \<and> attemptSettle_begin prefunding_plugin (new_account prefunding_plugin)
     = (Return (Some (BN 10)), (new_account prefunding_plugin)\<lparr>balance := BN 10\<rparr>)
   \<and> attemptSettle_revert prefunding_plugin (BN 10)
        ((new_account prefunding_plugin)\<lparr>balance := BN 10\<rparr>)
     = (Throw (Error ''proposed balance is below the minimum''),
        (new_account prefunding_plugin)\<lparr>balance := BN 10\<rparr>)
   \<and> attemptSettle prefunding_plugin PaymentFailed (new_account prefunding_plugin)
     = (Throw (Error ''proposed balance is below the minimum''), Some (BN 10),
        (new_account prefunding_plugin)\<lparr>balance := BN 10\<rparr>)
   \<and> run prefunding_plugin [SettleCalled, InvoiceResolved 0 True, PayResolved 0 False]
        (new_system prefunding_plugin)
     = \<lparr> acct = (new_account prefunding_plugin)\<lparr>balance := BN 10\<rparr>, attempts = [] \<rparr>"
  by (simp add: LightningPlugin_def prefunding_opts_def prefunding_plugin_def orDefault_def
        no_strings_def attemptSettle_def attemptSettle_begin_def attemptSettle_revert_def
        new_account_def addBalance_def subBalance_def bn_defs Let_def
        run_def new_system_def suspend_def started_def finish_def)

subsection \<open>Settlement attempts in flight\<close>

lemma gte_not_gt: "gte x t \<Longrightarrow> \<not> gt t x"
  by (cases x; cases t; auto simp: bn_defs)

lemma attemptSettle_begin_at_settleTo:
  assumes "settleThreshold (plugin_balance master) = Some threshold"
      and "gte (settleTo (plugin_balance master)) threshold"
      and "balance a = settleTo (plugin_balance master)"
  shows "attemptSettle_begin master a = (Return None, a)"
proof -
  have "\<not> gt threshold (balance a)"
    using assms(2,3) by (simp add: gte_not_gt)
  then show ?thesis using assms(1) by (simp add: attemptSettle_begin_def)
qed

lemma attemptSettle_begin_cases:
  "attemptSettle_begin master a = (r, a') \<Longrightarrow>
     (a' = a \<and> started r = None)
     \<or> (\<exists>budget. r = Return (Some budget) \<and> addBalance master budget a = (Return (), a')
          \<and> budget = minimum_of (minus_bn (settleTo (plugin_balance master)) (balance a)) (payoutAmount a)
          \<and> \<not> lte budget (BN 0))"
  by (auto simp: attemptSettle_begin_def Let_def started_def addBalance_def
           split: option.splits if_splits prod.splits result.splits)

text \<open>
  C3, as stated, fails: \<^verbatim>\<open>attemptSettle\<close> has no guard against an attempt in
  flight.  Two packets of 150 are fulfilled one after the other on a new account of the
  client that settles after the fact.  The first brings the balance to -150 and starts an
  attempt, whose optimistic credit brings it back to 0; the second does the same while
  the first attempt still waits for its invoice.  Both invoices arrive, and two calls of
  \<^verbatim>\<open>lnd.payInvoice\<close> are outstanding.
\<close>

theorem C3_two_payments_outstanding:
  "outstanding_pays
     (run postpaid_plugin
        [PrepareResponse (BN 150) FulfillPacket,
         PrepareResponse (BN 150) FulfillPacket,
         InvoiceResolved 0 True,
         InvoiceResolved 1 True]
        (new_system postpaid_plugin)) = 2"
  by (simp add: outstanding_pays_def run_def new_system_def new_account_def postpaid_plugin_def
        handlePrepareResponse_def attemptSettle_begin_def addBalance_def subBalance_def
        suspend_def started_def bn_defs Let_def)

text \<open>
  C3, amended: settlement attempts on one account are not serialized; what keeps a
  trigger from starting a second payment is the optimistic credit alone.  Under a
  configuration with \<open>settleThreshold \<le> settleTo\<close> (which the constructor checks),
  with an integer balance \<open>b\<close>, an integer \<open>settleTo = t\<close> and a payout amount of
  at least \<open>t - b\<close>, a call of \<^verbatim>\<open>attemptSettle\<close> that follows another one with
  no change of the balance in between starts no payment and changes nothing, whatever
  attempts are in flight.
\<close>

theorem C3_retrigger_at_settleTo:
  assumes "settleThreshold (plugin_balance master) = Some threshold"
      and "gte (settleTo (plugin_balance master)) threshold"
      and "settleTo (plugin_balance master) = BN t"
      and "balance (acct s) = BN b"
      and "lte (BN (t - b)) (payoutAmount (acct s))"
  shows "step master SettleCalled (step master SettleCalled s) = step master SettleCalled s"
proof (cases "attemptSettle_begin master (acct s)")
  case (Pair r a')
  from attemptSettle_begin_cases [OF Pair] show ?thesis
  proof
    assume "a' = acct s \<and> started r = None"
    with Pair show ?thesis by (simp add: suspend_def)
  next
    assume "\<exists>budget. r = Return (Some budget) \<and> addBalance master budget (acct s) = (Return (), a')
          \<and> budget = minimum_of (minus_bn (settleTo (plugin_balance master)) (balance (acct s))) (payoutAmount (acct s))
          \<and> \<not> lte budget (BN 0)"
    then obtain budget where r: "r = Return (Some budget)"
      and add: "addBalance master budget (acct s) = (Return (), a')"
      and bud: "budget = minimum_of (minus_bn (settleTo (plugin_balance master)) (balance (acct s))) (payoutAmount (acct s))"
      and pos: "\<not> lte budget (BN 0)" by blast
    have "budget = BN (t - b)"
      using bud assms(3,4,5) by (cases "payoutAmount (acct s)"; auto simp: bn_defs)
    with add pos have "balance a' = BN t"
      using assms(4) by (auto simp: addBalance_def Let_def isZero_def split: if_splits)
    then have "attemptSettle_begin master a' = (Return None, a')"
      using attemptSettle_begin_at_settleTo [OF assms(1,2)] assms(3) by simp
    with Pair r show ?thesis by (simp add: suspend_def started_def)
  qed
qed

theorem C3_retrigger_at_settleTo_witness:
  "settleThreshold (plugin_balance postpaid_plugin) = Some (BN (- 100))
   \<and> gte (settleTo (plugin_balance postpaid_plugin)) (BN (- 100))
   \<and> settleTo (plugin_balance postpaid_plugin) = BN 0
   \<and> balance (acct \<lparr> acct = owing_account, attempts = [] \<rparr>) = BN (- 150)
   \<and> lte (BN (0 - (- 150))) (payoutAmount (acct \<lparr> acct = owing_account, attempts = [] \<rparr>))
   \<and> step postpaid_plugin SettleCalled \<lparr> acct = owing_account, attempts = [] \<rparr>
       = \<lparr> acct = owing_account\<lparr>balance := BN 0\<rparr>,
           attempts = [\<lparr> att_budget = BN 150, att_phase = AwaitingInvoice \<rparr>] \<rparr>
   \<and> step postpaid_plugin SettleCalled
        (step postpaid_plugin SettleCalled \<lparr> acct = owing_account, attempts = [] \<rparr>)
       = \<lparr> acct = owing_account\<lparr>balance := BN 0\<rparr>,
           attempts = [\<lparr> att_budget = BN 150, att_phase = AwaitingInvoice \<rparr>] \<rparr>"
proof -
  let ?s = "\<lparr> acct = owing_account, attempts = [] \<rparr>"
  have h1: "settleThreshold (plugin_balance postpaid_plugin) = Some (BN (- 100))"
    by (simp add: postpaid_plugin_def)
  have h2: "gte (settleTo (plugin_balance postpaid_plugin)) (BN (- 100))"
    by (simp add: postpaid_plugin_def)
  have h3: "settleTo (plugin_balance postpaid_plugin) = BN 0"
    by (simp add: postpaid_plugin_def)
  have h4: "balance (acct ?s) = BN (- 150)"
    by (simp add: owing_account_def)
  have h5: "lte (BN (0 - (- 150))) (payoutAmount (acct ?s))"
    by (simp add: owing_account_def)
  have st: "step postpaid_plugin SettleCalled ?s
       = \<lparr> acct = owing_account\<lparr>balance := BN 0\<rparr>,
           attempts = [\<lparr> att_budget = BN 150, att_phase = AwaitingInvoice \<rparr>] \<rparr>"
    by (simp add: postpaid_plugin_def owing_account_def attemptSettle_begin_def addBalance_def
          suspend_def started_def bn_defs Let_def)
  show ?thesis
    using h1 h2 h3 h4 h5 st C3_retrigger_at_settleTo [OF h1 h2 h3 h4 h5]
    by simp
qed

subsection \<open>Forwarded packets\<close>

lemma attemptSettle_begin_not_due:
  "\<not> shouldSettle master a \<Longrightarrow> attemptSettle_begin master a = (Return None, a)"
  by (auto simp: shouldSettle_def attemptSettle_begin_def split: option.splits)

lemma plus_minus_BN: "x \<noteq> NaN \<Longrightarrow> minus_bn (plus_bn x (BN d)) (BN d) = x"
  by (cases x; simp add: minus_bn_def)

lemma handlePrepare_forwarded:
  "forwarded (handlePrepare master amount dataHandler a) \<Longrightarrow>
     \<exists>h a1. dataHandler = Some h \<and> \<not> gt amount (maxPacketAmount master)
       \<and> addBalance master amount a = (Return (), a1)"
  by (auto simp: handlePrepare_def split: option.splits if_splits prod.splits result.splits handler_outcome.splits)

lemma ingress_fulfill:
  assumes "within_bounds master a" and "0 \<le> d"
      and "forwarded (handlePrepare master (BN d) (Some (Responds response)) a)"
      and "response \<noteq> [] \<and> hd response = TYPE_ILP_FULFILL"
  shows "handlePrepare master (BN d) (Some (Responds response)) a
         = \<lparr> reply = IlpResponse response, forwarded = True,
             account_after = a\<lparr>balance := plus_bn (balance a) (BN d)\<rparr> \<rparr>"
proof -
  from handlePrepare_forwarded [OF assms(3)] obtain a1 where
    g: "\<not> gt (BN d) (maxPacketAmount master)" and add: "addBalance master (BN d) a = (Return (), a1)"
    by blast
  from add have "a1 = a\<lparr>balance := plus_bn (balance a) (BN d)\<rparr>"
    using addBalance_within_bounds [OF assms(1,2)] by (auto split: if_splits)
  with g add assms(4) show ?thesis by (simp add: handlePrepare_def)
qed

lemma ingress_reject:
  assumes "within_bounds master a" and "0 \<le> d"
      and "forwarded (handlePrepare master (BN d) (Some (Responds response)) a)"
      and "\<not> (response \<noteq> [] \<and> hd response = TYPE_ILP_FULFILL)"
  shows "handlePrepare master (BN d) (Some (Responds response)) a
         = \<lparr> reply = IlpResponse response, forwarded = True, account_after = a \<rparr>"
proof -
  from handlePrepare_forwarded [OF assms(3)] obtain a1 where
    g: "\<not> gt (BN d) (maxPacketAmount master)" and add: "addBalance master (BN d) a = (Return (), a1)"
    by blast
  from add have a1: "a1 = a\<lparr>balance := plus_bn (balance a) (BN d)\<rparr>"
    and le: "lte (plus_bn (balance a) (BN d)) (maximum (plugin_balance master))"
    using addBalance_within_bounds [OF assms(1,2)] by (auto split: if_splits)
  from assms(1) have nn: "balance a \<noteq> NaN" and mn: "lte (minimum (plugin_balance master)) (balance a)"
    by (auto simp: within_bounds_def)
  have wb: "within_bounds master a1"
    using a1 le mn assms(2) by (simp add: within_bounds_def lte_plus_mono)
  have restored: "minus_bn (balance a1) (BN d) = balance a"
    using a1 nn by (simp add: plus_minus_BN)
  have "a1\<lparr>balance := balance a\<rparr> = a" using a1 by (cases a) simp
  then have "subBalance master (BN d) a1 = (Return (), a)"
    using subBalance_within_bounds [OF wb assms(2)] restored mn by simp
  with g add assms(4) show ?thesis by (auto simp: handlePrepare_def)
qed

lemma egress_fulfill:
  assumes "within_bounds master a" and "0 \<le> d"
  shows "handlePrepareResponse master (BN d) FulfillPacket a =
     (if lte (minimum (plugin_balance master)) (minus_bn (balance a) (BN d))
      then (Return (),
            started (fst (attemptSettle_begin master
               (a\<lparr>balance := minus_bn (balance a) (BN d),
                  payoutAmount := plus_bn (payoutAmount a) (BN d)\<rparr>))),
            snd (attemptSettle_begin master
               (a\<lparr>balance := minus_bn (balance a) (BN d),
                  payoutAmount := plus_bn (payoutAmount a) (BN d)\<rparr>)))
      else (Throw InternalError, None, a))"
  using subBalance_within_bounds [OF assms]
  by (simp add: handlePrepareResponse_def Let_def split: prod.splits)

text \<open>
  \<open>handlePrepare\<close> is the first part followed at once by the second.
\<close>

lemma handlePrepare_split:
  "handlePrepare master amount dataHandler a =
     (case handlePrepare_begin master amount (dataHandler \<noteq> None) a of
        (Some rejection, a1) \<Rightarrow>
          \<lparr> reply = IlpReject rejection, forwarded = False, account_after = a1 \<rparr>
      | (None, a1) \<Rightarrow>
          (case handlePrepare_resume master amount (the dataHandler) a1 of
             (r, a2) \<Rightarrow> \<lparr> reply = r, forwarded = True, account_after = a2 \<rparr>))"
  by (auto simp: handlePrepare_def handlePrepare_begin_def handlePrepare_resume_def
           split: option.splits prod.splits result.splits handler_outcome.splits)

lemma handlePrepare_begin_forwarded:
  assumes "handlePrepare_begin master amount True a = (None, a1)"
  shows "addBalance master amount a = (Return (), a1)"
    and "forwarded (handlePrepare master amount (Some h) a)"
  using assms
  by (auto simp: handlePrepare_begin_def handlePrepare_def
           split: if_splits prod.splits result.splits handler_outcome.splits)

lemma handlePrepare_resume_fulfill:
  "response \<noteq> [] \<and> hd response = TYPE_ILP_FULFILL \<Longrightarrow>
     handlePrepare_resume master amount (Responds response) a = (IlpResponse response, a)"
  by (simp add: handlePrepare_resume_def)

lemma handlePrepare_resume_reject:
  assumes "\<not> (response \<noteq> [] \<and> hd response = TYPE_ILP_FULFILL)" and "0 \<le> d"
      and "lte (minimum (plugin_balance master)) (minus_bn (balance a) (BN d))"
  shows "handlePrepare_resume master (BN d) (Responds response) a
         = (IlpResponse response, a\<lparr>balance := minus_bn (balance a) (BN d)\<rparr>)"
proof -
  have nl: "\<not> lt (minus_bn (balance a) (BN d)) (minimum (plugin_balance master))"
    using assms(3)
    by (cases "minus_bn (balance a) (BN d)"; cases "minimum (plugin_balance master)")
       (auto simp: lte_def eq_bn_def)
  have same: "a\<lparr>balance := balance a\<rparr> = a" by (cases a) simp
  show ?thesis
  proof (cases "d = 0")
    case True
    then have "subBalance master (BN d) a = (Return (), a)"
      by (simp add: subBalance_def isZero_def)
    then show ?thesis using assms(1) same True
      by (auto simp: handlePrepare_resume_def)
  next
    case False
    with assms(2) have "\<not> isZero (BN d)" "\<not> lt (BN d) (BN 0)"
      by (simp_all add: isZero_def)
    then have "subBalance master (BN d) a
        = (Return (), a\<lparr>balance := minus_bn (balance a) (BN d)\<rparr>)"
      using nl by (simp add: subBalance_def Let_def)
    then show ?thesis using assms(1)
      by (auto simp: handlePrepare_resume_def)
  qed
qed

text \<open>
  C4, as stated, fails: the debit of the egress account goes through
  \<^verbatim>\<open>subBalance\<close>, which checks the minimum.  On the receive-only plugin with
  minimum -100, a FULFILL for an outgoing amount of 90 brings the balance to -90; a
  FULFILL for a further 20 would bring it to -110, so \<^verbatim>\<open>handlePrepareResponse\<close>
  throws an internal error and the balance stays at -90.
\<close>

theorem C4_fulfill_below_minimum:
  "handlePrepareResponse bounded_plugin (BN 90) FulfillPacket (new_account bounded_plugin)
     = (Return (), None,
        (new_account bounded_plugin)\<lparr>balance := BN (- 90), payoutAmount := BN 90\<rparr>)
   \<and> handlePrepareResponse bounded_plugin (BN 20) FulfillPacket
        ((new_account bounded_plugin)\<lparr>balance := BN (- 90), payoutAmount := BN 90\<rparr>)
     = (Throw InternalError, None,
        (new_account bounded_plugin)\<lparr>balance := BN (- 90), payoutAmount := BN 90\<rparr>)"
  by (simp add: handlePrepareResponse_def bounded_plugin_def new_account_def subBalance_def
        attemptSettle_begin_def started_def bn_defs Let_def)

text \<open>
  C4, amended, for a forwarded PREPARE whose data handler answers; what happens when the
  data handler throws is left open.  Let the balances of the ingress and of the egress
  account be within their bounds and let the two amounts be integers \<open>\<ge> 0\<close>.
  Forwarding the PREPARE raises the ingress balance by its amount.  When the data handler
  answers with a FULFILL, the ingress account stays as the answer finds it, whatever has
  happened to it in between; with nothing in between, the balance is higher by the
  PREPARE's amount than before the packet.  When it answers with anything else (a REJECT,
  which is also how a timeout arrives), the PREPARE's amount is taken off the balance the
  answer finds, provided that does not bring it below the minimum; with no other change
  of the balance in between, the ingress account is as it was before the packet.  On the
  egress account, a FULFILL lowers the balance by the outgoing amount, and raises the
  payout amount by it, when the lowered balance is not below the minimum and does not call
  for a settlement; when it would be below the minimum,
  \<^verbatim>\<open>handlePrepareResponse\<close> throws an internal error and leaves the account as it
  was.  A REJECT leaves the egress account as it was, unless its code is T04 and a
  settlement is due.
\<close>

theorem C4_forwarded_packet:
  assumes "within_bounds ingress a_in" and "0 \<le> amount"
      and "handlePrepare_begin ingress (BN amount) True a_in = (None, a1)"
      and "within_bounds egress a_out" and "0 \<le> outgoing"
  shows "a1 = a_in\<lparr>balance := plus_bn (balance a_in) (BN amount)\<rparr>
       \<and> (response \<noteq> [] \<and> hd response = TYPE_ILP_FULFILL \<longrightarrow>
            handlePrepare_resume ingress (BN amount) (Responds response) a'
              = (IlpResponse response, a')
            \<and> account_after (handlePrepare ingress (BN amount) (Some (Responds response)) a_in)
              = a_in\<lparr>balance := plus_bn (balance a_in) (BN amount)\<rparr>)
       \<and> (\<not> (response \<noteq> [] \<and> hd response = TYPE_ILP_FULFILL) \<longrightarrow>
            (lte (minimum (plugin_balance ingress)) (minus_bn (balance a') (BN amount)) \<longrightarrow>
               handlePrepare_resume ingress (BN amount) (Responds response) a'
                 = (IlpResponse response, a'\<lparr>balance := minus_bn (balance a') (BN amount)\<rparr>))
            \<and> handlePrepare_resume ingress (BN amount) (Responds response) a1
                = (IlpResponse response, a_in)
            \<and> account_after (handlePrepare ingress (BN amount) (Some (Responds response)) a_in)
                = a_in)
       \<and> (lte (minimum (plugin_balance egress)) (minus_bn (balance a_out) (BN outgoing))
          \<and> \<not> shouldSettle egress
                (a_out\<lparr>balance := minus_bn (balance a_out) (BN outgoing),
                       payoutAmount := plus_bn (payoutAmount a_out) (BN outgoing)\<rparr>) \<longrightarrow>
            handlePrepareResponse egress (BN outgoing) FulfillPacket a_out
              = (Return (), None,
                 a_out\<lparr>balance := minus_bn (balance a_out) (BN outgoing),
                       payoutAmount := plus_bn (payoutAmount a_out) (BN outgoing)\<rparr>))
       \<and> (\<not> lte (minimum (plugin_balance egress)) (minus_bn (balance a_out) (BN outgoing)) \<longrightarrow>
            handlePrepareResponse egress (BN outgoing) FulfillPacket a_out
              = (Throw InternalError, None, a_out))
       \<and> (\<not> (rejectCode = ''T04'' \<and> shouldSettle egress a_out) \<longrightarrow>
            handlePrepareResponse egress (BN outgoing) (RejectPacket rejectCode) a_out
              = (Return (), None, a_out))"
proof -
  let ?h = "Some (Responds response)"
  note fw = handlePrepare_begin_forwarded(1) [OF assms(3)]
    handlePrepare_begin_forwarded(2) [OF assms(3), where h = "Responds response"]
  have a1: "a1 = a_in\<lparr>balance := plus_bn (balance a_in) (BN amount)\<rparr>"
    using fw(1) addBalance_within_bounds [OF assms(1,2)] by (auto split: if_splits)
  have split: "handlePrepare ingress (BN amount) ?h a_in
      = (case handlePrepare_resume ingress (BN amount) (Responds response) a1 of
           (r, a2) \<Rightarrow> \<lparr> reply = r, forwarded = True, account_after = a2 \<rparr>)"
    using assms(3) by (simp add: handlePrepare_split)
  have ful: "handlePrepare_resume ingress (BN amount) (Responds response) a'
              = (IlpResponse response, a')
            \<and> account_after (handlePrepare ingress (BN amount) ?h a_in)
              = a_in\<lparr>balance := plus_bn (balance a_in) (BN amount)\<rparr>"
    if f: "response \<noteq> [] \<and> hd response = TYPE_ILP_FULFILL"
    using ingress_fulfill [OF assms(1,2) fw(2) f] handlePrepare_resume_fulfill [OF f]
    by simp
  have rej: "(lte (minimum (plugin_balance ingress)) (minus_bn (balance a') (BN amount)) \<longrightarrow>
               handlePrepare_resume ingress (BN amount) (Responds response) a'
                 = (IlpResponse response, a'\<lparr>balance := minus_bn (balance a') (BN amount)\<rparr>))
            \<and> handlePrepare_resume ingress (BN amount) (Responds response) a1
                = (IlpResponse response, a_in)
            \<and> account_after (handlePrepare ingress (BN amount) ?h a_in) = a_in"
    if f: "\<not> (response \<noteq> [] \<and> hd response = TYPE_ILP_FULFILL)"
  proof -
    have whole: "handlePrepare ingress (BN amount) ?h a_in
         = \<lparr> reply = IlpResponse response, forwarded = True, account_after = a_in \<rparr>"
      by (rule ingress_reject [OF assms(1,2) fw(2) f])
    have "handlePrepare_resume ingress (BN amount) (Responds response) a1
            = (IlpResponse response, a_in)"
      using whole unfolding split
      by (cases "handlePrepare_resume ingress (BN amount) (Responds response) a1") simp
    then show ?thesis
      using whole handlePrepare_resume_reject [OF f assms(2)] by simp
  qed
  let ?a2 = "a_out\<lparr>balance := minus_bn (balance a_out) (BN outgoing),
                       payoutAmount := plus_bn (payoutAmount a_out) (BN outgoing)\<rparr>"
  have e1: "handlePrepareResponse egress (BN outgoing) FulfillPacket a_out = (Return (), None, ?a2)"
    if h: "lte (minimum (plugin_balance egress)) (minus_bn (balance a_out) (BN outgoing))
          \<and> \<not> shouldSettle egress ?a2"
  proof -
    from h have "attemptSettle_begin egress ?a2 = (Return None, ?a2)"
      by (simp add: attemptSettle_begin_not_due)
    then show ?thesis
      using egress_fulfill [OF assms(4,5)] h by (simp add: started_def)
  qed
  have e2: "handlePrepareResponse egress (BN outgoing) FulfillPacket a_out
              = (Throw InternalError, None, a_out)"
    if "\<not> lte (minimum (plugin_balance egress)) (minus_bn (balance a_out) (BN outgoing))"
    using that egress_fulfill [OF assms(4,5)] by simp
  have e3: "handlePrepareResponse egress (BN outgoing) (RejectPacket rejectCode) a_out
              = (Return (), None, a_out)"
    if "\<not> (rejectCode = ''T04'' \<and> shouldSettle egress a_out)"
    using that by (auto simp: handlePrepareResponse_def attemptSettle_begin_not_due started_def)
  show ?thesis
    using a1 ful rej e1 e2 e3 by blast
qed

text \<open>
  At the witness an egress FULFILL of 90 for another packet arrives while the data handler
  is awaited, and brings the balance from 30 to -60.
\<close>

theorem C4_forwarded_packet_witness:
  "within_bounds bounded_plugin (new_account bounded_plugin) \<and> (0::int) \<le> 30
   \<and> handlePrepare_begin bounded_plugin (BN 30) True (new_account bounded_plugin)
       = (None, (new_account bounded_plugin)\<lparr>balance := BN 30\<rparr>)
   \<and> handlePrepare_resume bounded_plugin (BN 30) (Responds [TYPE_ILP_FULFILL])
         ((new_account bounded_plugin)\<lparr>balance := BN (- 60), payoutAmount := BN 90\<rparr>)
       = (IlpResponse [TYPE_ILP_FULFILL],
          (new_account bounded_plugin)\<lparr>balance := BN (- 60), payoutAmount := BN 90\<rparr>)
   \<and> account_after (handlePrepare bounded_plugin (BN 30) (Some (Responds [TYPE_ILP_FULFILL]))
                       (new_account bounded_plugin))
       = (new_account bounded_plugin)\<lparr>balance := BN 30\<rparr>
   \<and> lte (minimum (plugin_balance bounded_plugin)) (minus_bn (BN (- 60)) (BN 30))
   \<and> handlePrepare_resume bounded_plugin (BN 30) (Responds [14])
         ((new_account bounded_plugin)\<lparr>balance := BN (- 60), payoutAmount := BN 90\<rparr>)
       = (IlpResponse [14],
          (new_account bounded_plugin)\<lparr>balance := BN (- 90), payoutAmount := BN 90\<rparr>)
   \<and> account_after (handlePrepare bounded_plugin (BN 30) (Some (Responds [14]))
                       (new_account bounded_plugin))
       = new_account bounded_plugin
   \<and> handlePrepareResponse bounded_plugin (BN 30) FulfillPacket (new_account bounded_plugin)
       = (Return (), None, (new_account bounded_plugin)\<lparr>balance := BN (- 30), payoutAmount := BN 30\<rparr>)
   \<and> handlePrepareResponse bounded_plugin (BN 30) (RejectPacket ''F99'') (new_account bounded_plugin)
       = (Return (), None, new_account bounded_plugin)"
proof -
  let ?a = "new_account bounded_plugin"
  let ?a' = "?a\<lparr>balance := BN (- 60), payoutAmount := BN 90\<rparr>"
  have h1: "within_bounds bounded_plugin ?a"
    by (simp add: within_bounds_def bounded_plugin_def new_account_def)
  have h2: "(0::int) \<le> 30" by simp
  have h3: "handlePrepare_begin bounded_plugin (BN 30) True ?a = (None, ?a\<lparr>balance := BN 30\<rparr>)"
    by (simp add: handlePrepare_begin_def bounded_plugin_def new_account_def addBalance_def
          bn_defs Let_def)
  have v: "balance ?a = BN 0" "payoutAmount ?a = BN 0"
      "minimum (plugin_balance bounded_plugin) = BN (- 100)"
      "\<not> shouldSettle bounded_plugin b" for b
    by (simp_all add: bounded_plugin_def new_account_def bn_defs shouldSettle_def)
  have f: "\<not> ([14] \<noteq> [] \<and> hd [14] = TYPE_ILP_FULFILL)"
    by (simp add: TYPE_ILP_FULFILL_def)
  have g: "[TYPE_ILP_FULFILL] \<noteq> [] \<and> hd [TYPE_ILP_FULFILL] = TYPE_ILP_FULFILL"
    by simp
  have m: "minus_bn (BN (- 60)) (BN 30) = BN (- 90)" "minus_bn (BN 0) (BN 30) = BN (- 30)"
      "plus_bn (BN 0) (BN 30) = BN 30"
    by (simp_all add: minus_bn_def)
  have l: "lte (minimum (plugin_balance bounded_plugin)) (minus_bn (BN (- 60)) (BN 30))"
    by (simp add: v m)
  note F = C4_forwarded_packet [OF h1 h2 h3 h1 h2, where response = "[TYPE_ILP_FULFILL]"
      and a' = ?a' and rejectCode = "''F99''"]
  note R = C4_forwarded_packet [OF h1 h2 h3 h1 h2, where response = "[14]"
      and a' = ?a' and rejectCode = "''F99''"]
  have c1: "handlePrepare_resume bounded_plugin (BN 30) (Responds [TYPE_ILP_FULFILL]) ?a'
       = (IlpResponse [TYPE_ILP_FULFILL], ?a')"
    and c2: "account_after (handlePrepare bounded_plugin (BN 30)
               (Some (Responds [TYPE_ILP_FULFILL])) ?a) = ?a\<lparr>balance := BN 30\<rparr>"
    using F g by (simp_all add: v m)
  have c3: "handlePrepare_resume bounded_plugin (BN 30) (Responds [14]) ?a'
       = (IlpResponse [14], ?a\<lparr>balance := BN (- 90), payoutAmount := BN 90\<rparr>)"
    and c4: "account_after (handlePrepare bounded_plugin (BN 30) (Some (Responds [14])) ?a) = ?a"
    using R f l by (simp_all add: v m)
  have c5: "handlePrepareResponse bounded_plugin (BN 30) FulfillPacket ?a
       = (Return (), None, ?a\<lparr>balance := BN (- 30), payoutAmount := BN 30\<rparr>)"
    and c6: "handlePrepareResponse bounded_plugin (BN 30) (RejectPacket ''F99'') ?a
       = (Return (), None, ?a)"
    using R by (simp_all add: v m)
  show ?thesis
    using h1 h2 h3 l c1 c2 c3 c4 c5 c6 by blast
qed

text \<open>
  Where the balance the answer finds is too low for the amount to be taken off, the
  second part answers with a REJECT of its own and the credit stays: after a PREPARE of
  30 and an egress FULFILL of 120 in between, the balance is -90 and stays there.
\<close>

lemma handlePrepare_resume_refused:
  "handlePrepare_resume bounded_plugin (BN 30) (Responds [14])
     ((new_account bounded_plugin)\<lparr>balance := BN (- 90), payoutAmount := BN 120\<rparr>)
   = (IlpReject \<lparr> code = ''F00'', triggeredBy = [], data = [] \<rparr>,
      (new_account bounded_plugin)\<lparr>balance := BN (- 90), payoutAmount := BN 120\<rparr>)"
  by (simp add: handlePrepare_resume_def bounded_plugin_def new_account_def subBalance_def
        TYPE_ILP_FULFILL_def errorToReject_def ilpErrorCode_def ilpErrorData_def orDefault_def
        bn_defs Let_def)

subsection \<open>Packets over the maximum\<close>

lemma uint_of_bytes_snoc: "uint_of_bytes (bs @ [b]) = uint_of_bytes bs * 256 + unat b"
  by (simp add: uint_of_bytes_def)

lemma uint_of_bytes_be_bytes: "uint_of_bytes (be_bytes len v) = v mod 256 ^ len"
proof (induction len arbitrary: v)
  case 0
  then show ?case by (simp add: uint_of_bytes_def)
next
  case (Suc len)
  have "unat (of_nat (v mod 256) :: byte) = v mod 256"
    by (simp add: unat_of_nat)
  then have "uint_of_bytes (be_bytes (Suc len) v) = (v div 256 mod 256 ^ len) * 256 + v mod 256"
    by (simp add: uint_of_bytes_snoc Suc.IH)
  also have "\<dots> = v mod 256 ^ Suc len"
    by (simp add: mod_mult2_eq)
  finally show ?case .
qed

lemma writeUInt64_BN:
  "0 \<le> n \<Longrightarrow> n < 2 ^ 64 \<Longrightarrow> writeUInt64 (BN n) = Return (be_bytes 8 (nat n))"
  by (auto simp: writeUInt64_def writeUInt_def isInteger_def UINT_RANGES_def)

text \<open>
  C5, as stated, fails when no data handler is registered: that check comes first, and
  its error has no ILP code, so the REJECT for a PREPARE of 100 against a maximum of 50
  has code F00 and no data.
\<close>

theorem C5_no_data_handler:
  "gt (BN 100) (maxPacketAmount bounded_plugin)
   \<and> handlePrepare bounded_plugin (BN 100) None (new_account bounded_plugin)
     = \<lparr> reply = IlpReject \<lparr> code = ''F00'', triggeredBy = [], data = [] \<rparr>,
         forwarded = False, account_after = new_account bounded_plugin \<rparr>"
  by (simp add: handlePrepare_def bounded_plugin_def errorToReject_def ilpErrorCode_def
        ilpErrorData_def orDefault_def)

text \<open>
  C5, amended: when a data handler is registered, the maximum packet amount is an integer
  \<open>m \<ge> 0\<close> and the PREPARE's amount is an unsigned 64-bit integer \<open>n > m\<close>, the
  handler returns a REJECT with code F08 whose data is \<open>n\<close> and \<open>m\<close>, each
  written big-endian in 8 bytes (and read back from them); the data handler is not
  called and the account is as it was.
\<close>

theorem C5_packet_over_maximum:
  assumes "maxPacketAmount master = BN m" and "0 \<le> m" and "m < n" and "n < 2 ^ 64"
  shows "handlePrepare master (BN n) (Some handler) a
           = \<lparr> reply = IlpReject \<lparr> code = ''F08'', triggeredBy = [],
                                     data = be_bytes 8 (nat n) @ be_bytes 8 (nat m) \<rparr>,
               forwarded = False, account_after = a \<rparr>
         \<and> uint_of_bytes (be_bytes 8 (nat n)) = nat n
         \<and> uint_of_bytes (be_bytes 8 (nat m)) = nat m"
proof -
  have n: "0 \<le> n" and m: "m < 2 ^ 64" using assms(2,3,4) by simp_all
  have "new_AmountTooLargeError (BN n) (BN m) = AmountTooLargeError (be_bytes 8 (nat n) @ be_bytes 8 (nat m))"
    by (simp add: new_AmountTooLargeError_def writeUInt64_BN [OF n assms(4)]
          writeUInt64_BN [OF assms(2) m])
  then have "handlePrepare master (BN n) (Some handler) a
           = \<lparr> reply = IlpReject \<lparr> code = ''F08'', triggeredBy = [],
                                     data = be_bytes 8 (nat n) @ be_bytes 8 (nat m) \<rparr>,
               forwarded = False, account_after = a \<rparr>"
    using assms(1,3)
    by (simp add: handlePrepare_def errorToReject_def ilpErrorCode_def ilpErrorData_def orDefault_def)
  moreover have "nat n < 256 ^ 8" "nat m < 256 ^ 8"
    using n m assms(2,4) by simp_all
  ultimately show ?thesis
    by (simp add: uint_of_bytes_be_bytes)
qed

theorem C5_packet_over_maximum_witness:
  "maxPacketAmount bounded_plugin = BN 50 \<and> (0::int) \<le> 50 \<and> (50::int) < 100 \<and> (100::int) < 2 ^ 64
   \<and> handlePrepare bounded_plugin (BN 100) (Some (Responds [TYPE_ILP_FULFILL]))
        (new_account bounded_plugin)
     = \<lparr> reply = IlpReject \<lparr> code = ''F08'', triggeredBy = [],
                               data = [0, 0, 0, 0, 0, 0, 0, 100, 0, 0, 0, 0, 0, 0, 0, 50] \<rparr>,
         forwarded = False, account_after = new_account bounded_plugin \<rparr>"
proof -
  have h1: "maxPacketAmount bounded_plugin = BN 50" by (simp add: bounded_plugin_def)
  have b: "be_bytes 8 (nat 100) = [0, 0, 0, 0, 0, 0, 0, 100]"
          "be_bytes 8 (nat 50) = [0, 0, 0, 0, 0, 0, 0, 50]"
    by code_simp+
  show ?thesis
    using h1 b C5_packet_over_maximum [OF h1, of 100 "Responds [TYPE_ILP_FULFILL]" "new_account bounded_plugin"]
    by simp
qed

subsection \<open>The balance configuration\<close>

text \<open>
  With a settle threshold that is given and truthy, the constructor succeeds exactly when
  \<open>minimum \<le> settleThreshold \<le> settleTo \<le> maximum\<close>; without a threshold,
  \<^verbatim>\<open>attemptSettle\<close> returns without paying.
\<close>

lemma LightningPlugin_threshold_given:
  assumes "opt_lndIdentityPubkey opts \<noteq> None" and "opt_lndHost opts \<noteq> None"
      and "opt_balance opts = Some bopts" and "opt_settleThreshold bopts = Some v"
      and "truthy v"
  shows "(\<exists>master. LightningPlugin parse opts = Return master)
         \<longleftrightarrow> gte (toBigNumber parse (orDefault (opt_maximum bopts) (JsNumber PosInf)))
                 (toBigNumber parse (orDefault (opt_settleTo bopts) (JsNumber (BN 0))))
             \<and> gte (toBigNumber parse (orDefault (opt_settleTo bopts) (JsNumber (BN 0))))
                   (toBigNumber parse v)
             \<and> gte (toBigNumber parse v)
                   (toBigNumber parse (orDefault (opt_minimum bopts) (JsNumber NegInf)))"
  using assms by (auto simp: LightningPlugin_def Let_def orDefault_def)

lemma attemptSettle_receive_only:
  "settleThreshold (plugin_balance master) = None \<Longrightarrow>
     attemptSettle master outcome a = (Return (), None, a)"
  by (simp add: attemptSettle_def attemptSettle_begin_def)

text \<open>
  C6 at the failing input: the options give a settle threshold, the number 0, that is
  above \<^verbatim>\<open>settleTo\<close>, -5.  The constructor tests the threshold for truthiness
  before it converts it, takes 0 for a threshold that was not given, and succeeds with a
  plugin that never settles.
\<close>

theorem C6_zero_threshold_taken_as_absent:
  "opt_settleThreshold (the (opt_balance zero_threshold_opts)) = Some (JsNumber (BN 0))
   \<and> opt_settleTo (the (opt_balance zero_threshold_opts)) = Some (JsNumber (BN (- 5)))
   \<and> \<not> lte (BN 0) (BN (- 5))
   \<and> LightningPlugin no_strings zero_threshold_opts = Return zero_threshold_plugin
   \<and> settleThreshold (plugin_balance zero_threshold_plugin) = None
   \<and> attemptSettle zero_threshold_plugin outcome a = (Return (), None, a)"
  by (simp add: LightningPlugin_def zero_threshold_opts_def zero_threshold_plugin_def
        orDefault_def bn_defs Let_def attemptSettle_receive_only)

subsection \<open>Invoice notifications\<close>

text \<open>
  C7 at the failing input: the account issues the invoice \<^verbatim>\<open>lnbc1\<close>, and the
  notification that it was paid with 100 is delivered twice.  The invoice stays in the
  set of the account's invoices, so both deliveries debit the balance and call the money
  handler: the balance ends at -200.
\<close>

theorem C7_duplicate_notification:
  "handleInvoiceRequest (Return ''lnbc1'') (new_account postpaid_plugin)
     = (Return ''lnbc1'', (new_account postpaid_plugin)\<lparr>invoices := {''lnbc1''}\<rparr>)
   \<and> handleIncomingInvoice postpaid_plugin paid_invoice (Some MoneyAccepted)
        ((new_account postpaid_plugin)\<lparr>invoices := {''lnbc1''}\<rparr>)
     = (Return (), Some (BN 100),
        (new_account postpaid_plugin)\<lparr>invoices := {''lnbc1''}, balance := BN (- 100)\<rparr>)
   \<and> handleIncomingInvoice postpaid_plugin paid_invoice (Some MoneyAccepted)
        ((new_account postpaid_plugin)\<lparr>invoices := {''lnbc1''}, balance := BN (- 100)\<rparr>)
     = (Return (), Some (BN 100),
        (new_account postpaid_plugin)\<lparr>invoices := {''lnbc1''}, balance := BN (- 200)\<rparr>)"
  by (simp add: handleInvoiceRequest_def handleIncomingInvoice_def paid_invoice_def
        postpaid_plugin_def new_account_def subBalance_def bn_defs Let_def)

subsection \<open>The packet codec\<close>

lemma writes_Return [simp]:
  "writes (Return b # ws) = (case writes ws of Throw e \<Rightarrow> Throw e | Return bs \<Rightarrow> Return (b @ bs))"
  by simp

lemma writeUInt8_byte: "n < 256 \<Longrightarrow> writeUInt8 (BN (int n)) = Return [of_nat n]"
  by (simp add: writeUInt8_def writeUInt_def isInteger_def UINT_RANGES_def)

lemma writeVarOctetString_short:
  "length buffer \<le> 127 \<Longrightarrow> writeVarOctetString buffer = Return (of_nat (length buffer) # buffer)"
  by (simp add: writeVarOctetString_def writeUInt8_byte)

lemma unat_byte_of_nat: "n < 256 \<Longrightarrow> unat (of_nat n :: byte) = n"
  by (simp add: unat_of_nat)

lemma readUInt8_Cons: "readUInt8 (b # bs) = Return (unat b, bs)"
  by (simp add: readUInt8_def readUInt_def read_def bind_result_def uint_of_bytes_def)

lemma readVarOctetString_short:
  "length buffer \<le> 127 \<Longrightarrow>
     readVarOctetString (of_nat (length buffer) # buffer @ rest) = Return (buffer, rest)"
  by (simp add: readVarOctetString_def readLengthPrefix_def readUInt8_Cons bind_result_def
        unat_byte_of_nat read_def)

text \<open>
  A fulfillment, whose deserializer calls \<^verbatim>\<open>bufferToBase64url\<close>, comes back from
  its envelope, with its data in the spelling \<^verbatim>\<open>bufferToBase64url\<close> gives.
\<close>

lemma fulfillment_round_trip:
  assumes "length (fromBase64 c dat) \<le> 125"
  shows "\<exists>binary. serializeIlpPacket c (IlpFulfillment dat) = Return binary
           \<and> deserializeIlpPacket c binary
               = Return (''ilp_fulfillment'',
                         IlpFulfillment (bufferToBase64url c (fromBase64 c dat)))"
proof -
  define d where "d = fromBase64 c dat"
  define contents where "contents = (of_nat (length d) # d) @ [0]"
  define binary where "binary = 9 # of_nat (length contents) # contents"
  have short: "length d \<le> 127" "length contents \<le> 127"
    using assms by (simp_all add: contents_def d_def)
  have wd: "writeVarOctetString d = Return (of_nat (length d) # d)"
    using writeVarOctetString_short [OF short(1)] by simp
  have body: "writes [writeVarOctetString d, writeUInt8 (BN 0)] = Return contents"
    using writeUInt8_byte [of 0] by (simp add: wd contents_def)
  have env: "serializeEnvelope TYPE_ILP_FULFILLMENT contents = Return binary"
    using writeUInt8_byte [of 9] writeVarOctetString_short [OF short(2)]
    by (simp add: serializeEnvelope_def TYPE_ILP_FULFILLMENT_def binary_def)
  have ser: "serializeIlpPacket c (IlpFulfillment dat) = Return binary"
    using body env by (simp add: envelope_def bind_result_def d_def)
  have "readVarOctetString (of_nat (length contents) # contents) = Return (contents, [])"
    using readVarOctetString_short [OF short(2), of "[]"] by simp
  then have "deserializeEnvelope binary = Return (9, contents)"
    by (simp add: deserializeEnvelope_def readUInt8_Cons bind_result_def binary_def)
  then have opened: "openEnvelope TYPE_ILP_FULFILLMENT binary = Return contents"
    by (simp add: openEnvelope_def bind_result_def TYPE_ILP_FULFILLMENT_def)
  have "readVarOctetString contents = Return (d, [0])"
    using readVarOctetString_short [OF short(1), of "[0]"] by (simp add: contents_def)
  with opened have "deserializeIlpFulfillment c binary
          = Return (IlpFulfillment (bufferToBase64url c d))"
    by (simp add: deserializeIlpFulfillment_def bind_result_def)
  moreover have "(case binary of [] \<Rightarrow> None | b # bs \<Rightarrow> Some (unat b)) = Some 9"
    by (simp add: binary_def)
  ultimately have "deserializeIlpPacket c binary
          = Return (''ilp_fulfillment'', IlpFulfillment (bufferToBase64url c d))"
    by (simp add: deserializeIlpPacket_def bind_result_def Let_def
          TYPE_ILP_PAYMENT_def TYPE_ILQP_LIQUIDITY_REQUEST_def TYPE_ILQP_LIQUIDITY_RESPONSE_def
          TYPE_ILQP_BY_SOURCE_REQUEST_def TYPE_ILQP_BY_SOURCE_RESPONSE_def
          TYPE_ILQP_BY_DESTINATION_REQUEST_def TYPE_ILQP_BY_DESTINATION_RESPONSE_def
          TYPE_ILP_ERROR_def TYPE_ILP_FULFILLMENT_def)
  with ser show ?thesis by (auto simp: d_def)
qed

text \<open>
  C8 at the failing inputs: a forwarded payment, the tenth packet type.  Whatever its
  account and data (here, up to 124 bytes together, so that every length prefix is one
  byte), \<^verbatim>\<open>serializeIlpPacket\<close> returns its envelope, and
  \<^verbatim>\<open>deserializeIlpPacket\<close> of that envelope does not return the packet: it
  throws a \<^verbatim>\<open>ReferenceError\<close>, since \<^verbatim>\<open>deserializeIlpForwardedPayment\<close>
  calls \<^verbatim>\<open>base64url\<close>, which the file does not define.
\<close>

theorem C8_forwarded_payment:
  assumes "length account + length (fromBase64 c dat) \<le> 124"
  shows "serializeIlpPacket c (IlpForwardedPayment account dat)
           = Return (10 # of_nat (length account + length (fromBase64 c dat) + 3)
                     # (of_nat (length account) # fromAscii account)
                     @ (of_nat (length (fromBase64 c dat)) # fromBase64 c dat)
                     @ [0])
         \<and> deserializeIlpPacket c
              (10 # of_nat (length account + length (fromBase64 c dat) + 3)
                     # (of_nat (length account) # fromAscii account)
                     @ (of_nat (length (fromBase64 c dat)) # fromBase64 c dat)
                     @ [0])
           = Throw (ReferenceError ''base64url is not defined'')"
proof -
  define a where "a = fromAscii account"
  define d where "d = fromBase64 c dat"
  define contents where "contents = (of_nat (length account) # a) @ (of_nat (length d) # d) @ [0]"
  define binary where "binary = 10 # of_nat (length contents) # contents"
  have la: "length a = length account" by (simp add: a_def fromAscii_def)
  have short: "length a \<le> 127" "length d \<le> 127" "length contents \<le> 127"
    using assms la by (simp_all add: contents_def d_def)
  have len: "length contents = length account + length d + 3"
    using la by (simp add: contents_def)
  have wa: "writeVarOctetString a = Return (of_nat (length account) # a)"
    using writeVarOctetString_short [OF short(1)] la by simp
  have wd: "writeVarOctetString d = Return (of_nat (length d) # d)"
    using writeVarOctetString_short [OF short(2)] by simp
  have body: "writes [writeVarOctetString a, writeVarOctetString d, writeUInt8 (BN 0)]
                = Return contents"
    using writeUInt8_byte [of 0] by (simp add: wa wd contents_def)
  have env: "serializeEnvelope TYPE_ILP_FORWARDED_PAYMENT contents = Return binary"
    using writeUInt8_byte [of 10] writeVarOctetString_short [OF short(3)]
    by (simp add: serializeEnvelope_def TYPE_ILP_FORWARDED_PAYMENT_def binary_def)
  have ser: "serializeIlpPacket c (IlpForwardedPayment account dat) = Return binary"
    using body env by (simp add: envelope_def bind_result_def a_def d_def)
  have "readVarOctetString (of_nat (length contents) # contents) = Return (contents, [])"
    using readVarOctetString_short [OF short(3), of "[]"] by simp
  then have "deserializeEnvelope binary = Return (10, contents)"
    by (simp add: deserializeEnvelope_def readUInt8_Cons bind_result_def binary_def)
  then have opened: "openEnvelope TYPE_ILP_FORWARDED_PAYMENT binary = Return contents"
    by (simp add: openEnvelope_def bind_result_def TYPE_ILP_FORWARDED_PAYMENT_def)
  have "readVarOctetString contents = Return (a, (of_nat (length d) # d) @ [0])"
    using readVarOctetString_short [OF short(1), of "(of_nat (length d) # d) @ [0]"] la
    by (simp add: contents_def)
  then have "readAscii contents = Return (toAscii a, (of_nat (length d) # d) @ [0])"
    by (simp add: readAscii_def bind_result_def)
  with opened have "deserializeIlpForwardedPayment c binary
          = Throw (ReferenceError ''base64url is not defined'')"
    by (simp add: deserializeIlpForwardedPayment_def bind_result_def)
  moreover have "(case binary of [] \<Rightarrow> None | b # bs \<Rightarrow> Some (unat b)) = Some 10"
    by (simp add: binary_def)
  ultimately have des: "deserializeIlpPacket c binary
          = Throw (ReferenceError ''base64url is not defined'')"
    by (simp add: deserializeIlpPacket_def bind_result_def Let_def
          TYPE_ILP_PAYMENT_def TYPE_ILQP_LIQUIDITY_REQUEST_def TYPE_ILQP_LIQUIDITY_RESPONSE_def
          TYPE_ILQP_BY_SOURCE_REQUEST_def TYPE_ILQP_BY_SOURCE_RESPONSE_def
          TYPE_ILQP_BY_DESTINATION_REQUEST_def TYPE_ILQP_BY_DESTINATION_RESPONSE_def
          TYPE_ILP_ERROR_def TYPE_ILP_FULFILLMENT_def TYPE_ILP_FORWARDED_PAYMENT_def)
  have "binary = 10 # of_nat (length account + length (fromBase64 c dat) + 3)
                     # (of_nat (length account) # fromAscii account)
                     @ (of_nat (length (fromBase64 c dat)) # fromBase64 c dat)
                     @ [0]"
    unfolding binary_def len unfolding contents_def a_def d_def by (rule refl)
  with ser des show ?thesis by simp
qed

theorem C8_forwarded_payment_witness:
  "length ''g.a'' + length (fromBase64 plain_codec []) \<le> 124
   \<and> serializeIlpPacket plain_codec (IlpForwardedPayment ''g.a'' [])
       = Return [10, 6, 3, 103, 46, 97, 0, 0]
   \<and> deserializeIlpPacket plain_codec [10, 6, 3, 103, 46, 97, 0, 0]
       = Throw (ReferenceError ''base64url is not defined'')"
proof -
  have h: "length ''g.a'' + length (fromBase64 plain_codec []) \<le> 124"
    by (simp add: plain_codec_def)
  have "fromBase64 plain_codec [] = []" "fromAscii ''g.a'' = [103, 46, 97]"
    by (simp_all add: plain_codec_def fromAscii_def)
  then show ?thesis
    using h C8_forwarded_payment [OF h] by simp
qed

subsection \<open>The epoch cursor of a peer\<close>

text \<open>
  When nothing changes the routing tables between a broadcast and its acknowledgement,
  the cursor invariant is kept: every route of the ledger is above the old cursor, and
  offered now, or at or below it, and offered before.
\<close>

lemma cursor_covered_broadcast_acknowledged:
  assumes "cursor_covered s l" and "l \<in> set (peers (bc s))"
      and "\<forall>r \<in> set (table s). 0 \<le> added_during_epoch r"
  shows "cursor_covered (routing_run [Broadcast f, Acknowledged l] s) l"
proof -
  let ?s' = "routing_run [Broadcast f, Acknowledged l] s"
  have cur: "peerEpochs (bc ?s') l = Some (currentEpoch s)"
    by (simp add: routing_run_def broadcast_send_def Let_def broadcastToLedger_then_def)
  have tab: "table ?s' = table s"
    by (simp add: routing_run_def broadcast_send_def Let_def)
  have off: "set (offered s) \<subseteq> set (offered ?s')"
    by (auto simp: routing_run_def broadcast_send_def Let_def)
  have new: "(l, r) \<in> set (offered ?s')"
    if "r \<in> set (table s)" "source_ledger r = l"
       "\<not> startsWith (destination_ledger r) PEER_LEDGER_PREFIX"
       "added_during_epoch r > lastEpoch (bc s) l" for r
    using that assms(2)
    by (auto simp: routing_run_def broadcast_send_def Let_def broadcastToLedger_send_def
             intro!: bexI [of _ l])
  have old: "(l, r) \<in> set (offered s)"
    if "r \<in> set (table s)" "source_ledger r = l"
       "\<not> startsWith (destination_ledger r) PEER_LEDGER_PREFIX"
       "added_during_epoch r \<le> lastEpoch (bc s) l" for r
  proof (cases "peerEpochs (bc s) l")
    case None
    with that assms(3) show ?thesis by (auto simp: lastEpoch_def)
  next
    case (Some e)
    with that assms(1,3) show ?thesis
      by (auto simp: lastEpoch_def cursor_covered_def list_all_iff split: if_splits)
  qed
  show ?thesis
    unfolding cursor_covered_def cur tab
    using new old off by (fastforce simp: list_all_iff)
qed

text \<open>
  A failed broadcast: the first broadcast to \<^verbatim>\<open>usd.\<close> is rejected and the
  routing tables report the links to \<^verbatim>\<open>eur.\<close> and \<^verbatim>\<open>jpy.\<close> as lost,
  \<^verbatim>\<open>eur.\<close> twice.  The cursor is set to -1, the next broadcast offers the
  route again and lists the two ledgers as unreachable, in the order they were detected,
  and the set of detected ledgers is empty again.
\<close>

lemma failed_broadcast_offered_again:
  "broadcast_send [usd_eur] False
     (bc (routing_run [Broadcast True, Failed ''usd.'' [''eur.'', ''jpy.'', ''eur.'']]
            new_routing))
   = ([(''usd.'', \<lparr> new_routes = [usd_eur],
                      unreachable_through_me = [''eur.'', ''jpy.''],
                      request_full_table = False \<rparr>)],
      \<lparr> peers = [''usd.''], peerEpochs = [''usd.'' \<mapsto> - 1], detectedDown = [] \<rparr>)"
  by (simp add: routing_run_def new_routing_def usd_eur_def broadcast_send_def
        broadcastToLedger_send_def broadcastToLedger_catch_def markLedgersUnreachable_def
        lastEpoch_def startsWith_def PEER_LEDGER_PREFIX_def Let_def)

text \<open>
  C9 at the failing input: the tables change while a broadcast is in flight.  The first
  broadcast offers the route of epoch 1 to the ledger \<^verbatim>\<open>usd.\<close>.  Before the
  ledger acknowledges it, a second route is added during epoch 2, now the current epoch.
  The \<^verbatim>\<open>then\<close> callback reads the current epoch when it runs and sets the cursor
  to 2.  The next broadcast offers only routes added after epoch 2: the second route is
  in the tables, was added during an epoch at or below the cursor, and has never been
  offered.
\<close>

theorem C9_route_added_in_flight:
  "(let s = routing_run
              [Broadcast True, TablesChange [usd_eur, usd_jpy] 2, Acknowledged ''usd.'',
               Broadcast False]
              new_routing
    in peerEpochs (bc s) ''usd.'' = Some 2
       \<and> table s = [usd_eur, usd_jpy]
       \<and> source_ledger usd_jpy = ''usd.''
       \<and> added_during_epoch usd_jpy \<le> 2
       \<and> offered s = [(''usd.'', usd_eur)]
       \<and> (''usd.'', usd_jpy) \<notin> set (offered s))"
  by (simp add: routing_run_def new_routing_def usd_eur_def usd_jpy_def broadcast_send_def
        broadcastToLedger_send_def broadcastToLedger_then_def lastEpoch_def
        startsWith_def PEER_LEDGER_PREFIX_def Let_def)

subsection \<open>The store wrapper\<close>

lemma store_run_snoc: "store_run js jp (evs @ [e]) s = store_step js jp e (store_run js jp evs s)"
  by (simp add: store_run_def)

lemma write_order_step:
  assumes "write_order st s"
  shows "write_order st (store_step js jp e s)"
proof (cases e)
  case (Set key v)
  with assms show ?thesis
    by (auto simp: write_order_def set_value_def Let_def)
next
  case (Delete key)
  with assms show ?thesis
    by (auto simp: write_order_def delete_key_def Let_def)
next
  case (SetCache key str)
  with assms show ?thesis by (auto simp: write_order_def setCache_def)
next
  case (Unload key)
  with assms show ?thesis by (auto simp: write_order_def unload_def)
next
  case (LoadResolves key parse got)
  have "pending (snd (load_resume jp key parse got w)) = pending w
      \<and> rejected (snd (load_resume jp key parse got w)) = rejected w" for w :: "'a wrapper"
    by (auto simp: load_resume_def split: result.splits option.splits)
  with assms LoadResolves show ?thesis by (auto simp: write_order_def)
next
  case (WriteRuns ok)
  with assms show ?thesis
    by (cases "pending (wrapped s)") (auto simp: write_order_def)
qed

lemma write_order_run: "write_order st (store_run js jp evs (new_stored st))"
proof (induction evs rule: rev_induct)
  case Nil
  show ?case by (simp add: store_run_def write_order_def new_stored_def new_wrapper_def)
next
  case (snoc e evs)
  then show ?case by (simp add: store_run_snoc write_order_step)
qed

lemma load_resume_cached:
  "cache w key \<noteq> None \<Longrightarrow>
     load_resume jp key parse got w = ((case got of Throw e \<Rightarrow> Throw e | Return v \<Rightarrow> Return ()), w)"
  by (auto simp: load_resume_def split: result.splits)

lemma drain_writes:
  assumes "\<not> rejected (wrapped s)"
  shows "pending (wrapped (store_run js jp (replicate (length (pending (wrapped s))) (WriteRuns True)) s)) = []
       \<and> applied (store_run js jp (replicate (length (pending (wrapped s))) (WriteRuns True)) s)
           = applied s @ pending (wrapped s)
       \<and> issued (store_run js jp (replicate (length (pending (wrapped s))) (WriteRuns True)) s) = issued s
       \<and> \<not> rejected (wrapped (store_run js jp (replicate (length (pending (wrapped s))) (WriteRuns True)) s))"
  using assms
proof (induction "pending (wrapped s)" arbitrary: s)
  case Nil
  then show ?case by (simp add: store_run_def)
next
  case (Cons wr rest)
  let ?s1 = "store_step js jp (WriteRuns True) s"
  from Cons(2) [symmetric] Cons(3) have s1: "pending (wrapped ?s1) = rest" "\<not> rejected (wrapped ?s1)"
    "applied ?s1 = applied s @ [wr]" "issued ?s1 = issued s"
    by simp_all
  have run: "store_run js jp (replicate (length (pending (wrapped s))) (WriteRuns True)) s
        = store_run js jp (replicate (length rest) (WriteRuns True)) ?s1"
    using Cons(2) [symmetric] by (simp add: store_run_def)
  from Cons(1) [of ?s1] s1 show ?case
    unfolding run using Cons(2) [symmetric] by simp
qed

lemma store_run_append:
  "store_run js jp (evs @ evs') s = store_run js jp evs' (store_run js jp evs s)"
  by (simp add: store_run_def)

lemma foldl_apply_write:
  "foldl apply_write st ws key = value_after key ws (st key)"
proof (induction ws rule: rev_induct)
  case Nil
  show ?case by (simp add: value_after_def last_write_def)
next
  case (snoc w ws)
  then show ?case
    by (cases w) (auto simp: value_after_def last_write_def)
qed

lemma store_step_not_rejected:
  "e \<noteq> WriteRuns False \<Longrightarrow>
     rejected (wrapped (store_step js jp e s)) = rejected (wrapped s)"
proof (cases e)
  case (LoadResolves key parse got)
  have "rejected (snd (load_resume jp key parse got w)) = rejected w" for w :: "'a wrapper"
    by (auto simp: load_resume_def split: result.splits option.splits)
  with LoadResolves show ?thesis by simp
next
  case (WriteRuns ok)
  assume "e \<noteq> WriteRuns False"
  with WriteRuns show ?thesis
    by (cases "pending (wrapped s)") auto
qed (auto simp: set_value_def delete_key_def setCache_def unload_def Let_def)

lemma store_run_not_rejected:
  "WriteRuns False \<notin> set evs \<Longrightarrow>
     rejected (wrapped (store_run js jp evs s)) = rejected (wrapped s)"
proof (induction evs rule: rev_induct)
  case Nil
  show ?case by (simp add: store_run_def)
next
  case (snoc e evs)
  then have "e \<noteq> WriteRuns False" by auto
  with snoc show ?case by (simp add: store_run_snoc store_step_not_rejected)
qed

text \<open>
  C10, as stated, fails for the writes: \<^verbatim>\<open>set\<close> and \<^verbatim>\<open>delete\<close> chain
  their callbacks with \<^verbatim>\<open>then\<close> and without a \<^verbatim>\<open>catch\<close>, so behind a
  write the store rejected no callback runs.  The store rejects the write of
  \<^verbatim>\<open>a\<close>; \<^verbatim>\<open>b\<close> is set afterwards and is visible in the cache; when every
  callback of the chain has had its turn, the write of \<^verbatim>\<open>b\<close> was issued and
  nothing has been applied to the store.
\<close>

theorem C10_write_behind_rejection:
  "issued (store_run stringly unparsed rejected_put (new_stored Map.empty))
     = [Put ''a'' ''1'', Put ''b'' ''2'']
   \<and> pending (wrapped (store_run stringly unparsed rejected_put (new_stored Map.empty))) = []
   \<and> applied (store_run stringly unparsed rejected_put (new_stored Map.empty)) = []
   \<and> backing (store_run stringly unparsed rejected_put (new_stored Map.empty)) ''b'' = None
   \<and> cache (wrapped (store_run stringly unparsed rejected_put (new_stored Map.empty))) ''b''
     = Some (Some (Typed (StringValue ''2'')))"
  by (simp add: store_run_def rejected_put_def new_stored_def new_wrapper_def set_value_def)

text \<open>
  C10, amended: a load never overwrites a cache entry.  When the cache has the key at the
  moment the read of the store resolves, \<^verbatim>\<open>_load\<close> leaves the wrapper as it is; in
  particular after \<^verbatim>\<open>set(key, v)\<close>, which makes \<open>v\<close> visible in the cache at
  once, whatever the read gives is discarded.  And as long as the store rejects no write,
  the writes reach the store in the order of the calls of \<^verbatim>\<open>set\<close> and
  \<^verbatim>\<open>delete\<close>.  In every run, the writes applied to the store are a prefix of the
  writes issued, and the store holds what they make of its first content: for every key
  the value of the last write applied to it.  A run in which the store rejects no write
  has no rejected chain; and while the chain is not rejected, the writes not yet applied
  are pending in the order they were issued, and the callbacks that follow apply them all,
  in that order, so that the store then holds for every key the value of the last write
  issued to it.
\<close>

theorem C10_store_wrapper:
  "(cache w key \<noteq> None \<longrightarrow> snd (load_resume jp key parse got w) = w)
   \<and> cache (set_value js key v w) key = Some (Some (Typed v))
   \<and> snd (load_resume jp key parse got (set_value js key v w)) = set_value js key v w
   \<and> (let s = store_run js jp evs (new_stored st) in
        (\<exists>rest. issued s = applied s @ rest)
        \<and> backing s = foldl apply_write st (applied s)
        \<and> backing s k = value_after k (applied s) (st k)
        \<and> (WriteRuns False \<notin> set evs \<longrightarrow> \<not> rejected (wrapped s))
        \<and> (\<not> rejected (wrapped s) \<longrightarrow>
             issued s = applied s @ pending (wrapped s)
             \<and> (let s' = store_run js jp
                             (replicate (length (pending (wrapped s))) (WriteRuns True)) s
                  in applied s' = issued s
                     \<and> pending (wrapped s') = []
                     \<and> backing s' k = value_after k (issued s) (st k))))"
proof -
  have c: "cache (set_value js key v w) key = Some (Some (Typed v))"
    by (simp add: set_value_def Let_def)
  then have "cache (set_value js key v w) key \<noteq> None" by simp
  then have l: "snd (load_resume jp key parse got (set_value js key v w)) = set_value js key v w"
    by (simp add: load_resume_cached)
  have k: "cache w key \<noteq> None \<longrightarrow> snd (load_resume jp key parse got w) = w"
    by (simp add: load_resume_cached)
  define s where "s = store_run js jp evs (new_stored st)"
  define s' where
    "s' = store_run js jp (replicate (length (pending (wrapped s))) (WriteRuns True)) s"
  have wo: "write_order st s"
    unfolding s_def by (rule write_order_run)
  have "s' = store_run js jp
               (evs @ replicate (length (pending (wrapped s))) (WriteRuns True)) (new_stored st)"
    unfolding s'_def s_def by (simp add: store_run_append)
  then have wo': "write_order st s'"
    by (simp add: write_order_run)
  have p: "\<exists>rest. issued s = applied s @ rest"
    using wo by (auto simp: write_order_def split: if_splits)
  have b: "backing s = foldl apply_write st (applied s)"
    using wo by (simp add: write_order_def)
  have b': "backing s k = value_after k (applied s) (st k)"
    unfolding b by (rule foldl_apply_write)
  have n: "WriteRuns False \<notin> set evs \<longrightarrow> \<not> rejected (wrapped s)"
    unfolding s_def
    by (simp add: store_run_not_rejected new_stored_def new_wrapper_def)
  have d: "issued s = applied s @ pending (wrapped s)
           \<and> applied s' = issued s \<and> pending (wrapped s') = []
           \<and> backing s' k = value_after k (issued s) (st k)"
    if r: "\<not> rejected (wrapped s)"
  proof -
    from wo r have i: "issued s = applied s @ pending (wrapped s)"
      by (simp add: write_order_def)
    from drain_writes [OF r, of js jp]
    have a: "applied s' = issued s" and e: "pending (wrapped s') = []"
      unfolding s'_def [symmetric] using i by simp_all
    from wo' have "backing s' = foldl apply_write st (applied s')"
      by (simp add: write_order_def)
    then have "backing s' k = value_after k (issued s) (st k)"
      unfolding a by (simp add: foldl_apply_write)
    with i a e show ?thesis by simp
  qed
  show ?thesis
    using c l k p b b' n d
    unfolding Let_def s'_def [symmetric] s_def [symmetric] s'_def [symmetric]
    by blast
qed

theorem C10_store_wrapper_witness:
  "cache (set_value stringly ''k'' (StringValue ''new'') new_wrapper) ''k'' \<noteq> None
   \<and> snd (load_resume unparsed ''k'' False (Return (Some ''old''))
            (set_value stringly ''k'' (StringValue ''new'') new_wrapper))
       = set_value stringly ''k'' (StringValue ''new'') new_wrapper
   \<and> WriteRuns False \<notin> set set_again
   \<and> \<not> rejected (wrapped (store_run stringly unparsed set_again (new_stored Map.empty)))
   \<and> issued (store_run stringly unparsed set_again (new_stored Map.empty))
       = [Put ''k'' ''one'', Del ''k'', Put ''k'' ''two'']
   \<and> applied (store_run stringly unparsed set_again (new_stored Map.empty))
       = [Put ''k'' ''one'']
   \<and> backing (store_run stringly unparsed set_again (new_stored Map.empty)) ''k''
       = Some ''one''
   \<and> applied (store_run stringly unparsed (set_again @ [WriteRuns True, WriteRuns True])
                (new_stored Map.empty))
       = [Put ''k'' ''one'', Del ''k'', Put ''k'' ''two'']
   \<and> backing (store_run stringly unparsed (set_again @ [WriteRuns True, WriteRuns True])
                (new_stored Map.empty)) ''k''
       = Some ''two''"
proof -
  let ?w = "set_value stringly ''k'' (StringValue ''new'') new_wrapper"
  define S where "S = store_run stringly unparsed set_again (new_stored Map.empty)"
  define S' where
    "S' = store_run stringly unparsed (replicate (length (pending (wrapped S))) (WriteRuns True)) S"
  have h1: "cache ?w ''k'' \<noteq> None"
    by (simp add: set_value_def new_wrapper_def)
  have h0: "WriteRuns False \<notin> set set_again"
    by (simp add: set_again_def)
  have S: "S = \<lparr> wrapped = \<lparr> cache = [''k'' \<mapsto> Some (Typed (StringValue ''two''))],
                              pending = [Del ''k'', Put ''k'' ''two''], rejected = False \<rparr>,
                  backing = [''k'' \<mapsto> ''one''],
                  issued = [Put ''k'' ''one'', Del ''k'', Put ''k'' ''two''],
                  applied = [Put ''k'' ''one''] \<rparr>"
    unfolding S_def
    by (simp add: store_run_def set_again_def new_stored_def new_wrapper_def set_value_def
          delete_key_def)
  have h2: "\<not> rejected (wrapped S)" by (simp add: S)
  have r: "replicate (length (pending (wrapped S))) (WriteRuns True)
           = [WriteRuns True, WriteRuns True]"
    by (simp add: S)
  have more: "store_run stringly unparsed (set_again @ [WriteRuns True, WriteRuns True])
                (new_stored Map.empty) = S'"
  proof -
    have "S' = store_run stringly unparsed [WriteRuns True, WriteRuns True] S"
      unfolding S'_def r by (rule refl)
    then show ?thesis
      unfolding S_def by (simp add: store_run_append)
  qed
  have v: "value_after ''k'' [Put ''k'' ''one''] None = Some ''one''"
      "value_after ''k'' [Put ''k'' ''one'', Del ''k'', Put ''k'' ''two''] None = Some ''two''"
    by (simp_all add: value_after_def last_write_def)
  note T = C10_store_wrapper [where w = ?w and key = "''k''" and jp = unparsed
        and parse = False and got = "Return (Some ''old'')" and js = stringly
        and evs = set_again and st = Map.empty and k = "''k''" and v = "StringValue ''new''",
        unfolded Let_def, folded S_def, folded S'_def]
  from T h1 have t1: "snd (load_resume unparsed ''k'' False (Return (Some ''old'')) ?w) = ?w"
    by blast
  from T h2 have t2: "applied S' = issued S"
      "backing S' ''k'' = value_after ''k'' (issued S) None"
    by blast+
  from T have t3: "backing S ''k'' = value_after ''k'' (applied S) None"
    by blast
  have i: "issued S = [Put ''k'' ''one'', Del ''k'', Put ''k'' ''two'']"
      "applied S = [Put ''k'' ''one'']"
    by (simp_all add: S)
  show ?thesis
    unfolding more S_def [symmetric]
    using h0 h1 h2 t1 t2 t3 i v by simp
qed

text \<open>
  A stored text that parses to a number is cached as it is, and neither
  \<^verbatim>\<open>getString\<close> nor \<^verbatim>\<open>getObject\<close> returns it.
\<close>

lemma parsed_number_refused:
  "getString ''n'' (snd (load_resume (\<lambda>str. Return (Other ())) ''n'' True
                            (Return (Some ''5'')) new_wrapper))
     = Throw (Error ''StoreWrapper#getString: unexpected type'')
   \<and> getObject ''n'' (snd (load_resume (\<lambda>str. Return (Other ())) ''n'' True
                              (Return (Some ''5'')) new_wrapper))
     = Throw (Error ''StoreWrapper#getObject: unexpected type'')"
  by (simp add: load_resume_def new_wrapper_def getString_def getObject_def)

end
